theory Spec2Isabelle
  imports Complex_Main "HOL-Library.Word"
begin

text \<open>
  The request pipeline of the Gemini MCP server: the values and errors of the program,
  the retry wrapper, the validator, the rate limiter, the \<open>list_models\<close> and
  \<open>generate_text\<close> tools and the handler of an input line, each definition written
  after the source function of the same name, followed by the properties proved of them.
\<close>

section \<open>JavaScript values\<close>

text \<open>
  A JavaScript string is a sequence of UTF-16 code units; \<open>length\<close> counts code units and
  a regular expression without the \<open>u\<close> flag matches code units. String literals of the
  source are written \<open>js ''...''\<close>.
\<close>

type_synonym code_unit = "16 word"
type_synonym jsstring = "code_unit list"

definition js :: "string \<Rightarrow> jsstring" where
  "js s = map of_char s"

text \<open>
  The values that \<open>JSON.parse\<close> produces, together with \<open>undefined\<close> (what reading an
  absent property gives) and the built-in functions that a value inherits from its
  prototype, each known by its name. Numbers are reals: the rounding of a decimal literal
  to a double is not modelled. An object is the list of its own properties, keys distinct.
\<close>

datatype js_value =
    JUndefined
  | JNull
  | JBool bool
  | JNum real
  | JStr jsstring
  | JArr "js_value list"
  | JObj "(jsstring \<times> js_value) list"
  | JBuiltin jsstring

datatype js_type = T_undefined | T_object | T_boolean | T_number | T_string | T_function

fun typeof :: "js_value \<Rightarrow> js_type" where
  "typeof JUndefined = T_undefined"
| "typeof JNull = T_object"
| "typeof (JBool b) = T_boolean"
| "typeof (JNum n) = T_number"
| "typeof (JStr s) = T_string"
| "typeof (JArr vs) = T_object"
| "typeof (JObj fs) = T_object"
| "typeof (JBuiltin f) = T_function"

text \<open>Truthiness, as tested by \<open>if (v)\<close>, \<open>!v\<close>, \<open>v || d\<close> and \<open>v && w\<close>.\<close>

fun truthy :: "js_value \<Rightarrow> bool" where
  "truthy JUndefined = False"
| "truthy JNull = False"
| "truthy (JBool b) = b"
| "truthy (JNum n) = (n \<noteq> 0)"
| "truthy (JStr s) = (s \<noteq> [])"
| "truthy (JArr vs) = True"
| "truthy (JObj fs) = True"
| "truthy (JBuiltin f) = True"

definition nullish :: "js_value \<Rightarrow> bool" where
  "nullish v = (v = JUndefined \<or> v = JNull)"

text \<open>
  \<open>member v k\<close> is \<open>v.k\<close> for a value \<open>v\<close> that is neither \<open>undefined\<close> nor \<open>null\<close>,
  and for a key \<open>k\<close> that the program reads: \<open>jsonrpc\<close>, \<open>method\<close>, \<open>id\<close>, \<open>params\<close>,
  \<open>name\<close>, \<open>arguments\<close>, \<open>filter\<close>, \<open>status\<close>, \<open>code\<close>, \<open>text\<close>, \<open>usageMetadata\<close>,
  \<open>totalTokenCount\<close>, \<open>candidates\<close>, \<open>finishReason\<close>, \<open>thinking\<close>, \<open>features\<close>,
  \<open>contents\<close> and the names of the parameters of \<open>generate_text\<close>. It is the own
  property of an object, \<open>undefined\<close> when absent. Of these keys one is inherited from a
  prototype: an array has \<open>Array.prototype.filter\<close>. On every other kind of value the
  keys give \<open>undefined\<close> (the program reads no property of a function, and the length
  and the first element of an array or a string are read by \<open>opt_length\<close> and
  \<open>opt_first\<close> below).
  \<open>get_prop v k\<close> is \<open>v.k\<close> for any \<open>v\<close>: \<open>None\<close> stands for the TypeError that reading a
  property of \<open>undefined\<close> or \<open>null\<close> throws. \<open>opt_member v k\<close> is \<open>v?.k\<close>.
\<close>

fun member :: "js_value \<Rightarrow> jsstring \<Rightarrow> js_value" where
  "member (JObj fs) k = (case map_of fs k of Some v \<Rightarrow> v | None \<Rightarrow> JUndefined)"
| "member (JArr vs) k =
     (if k = js ''filter'' then JBuiltin (js ''Array.prototype.filter'') else JUndefined)"
| "member v k = JUndefined"

definition get_prop :: "js_value \<Rightarrow> jsstring \<Rightarrow> js_value option" where
  "get_prop v k = (if nullish v then None else Some (member v k))"

definition opt_member :: "js_value \<Rightarrow> jsstring \<Rightarrow> js_value" where
  "opt_member v k = (if nullish v then JUndefined else member v k)"

definition has_own :: "js_value \<Rightarrow> jsstring \<Rightarrow> bool" where
  \<comment> \<open>\<open>k in v\<close> for a parsed object\<close>
  "has_own v k = (case v of JObj fs \<Rightarrow> map_of fs k \<noteq> None | _ \<Rightarrow> False)"

section \<open>Errors (utils/errors.ts)\<close>

text \<open>
  A text built by a template literal is the list of its pieces, in order: literal text
  (\<open>Str\<close>), an interpolated number (\<open>Num\<close>), any other interpolated value (\<open>Val\<close>), the
  text \<open>JSON.stringify\<close> gives for a value (\<open>Json\<close>), and zod's issues, each written as
  its path and its message and joined by commas (\<open>Issues\<close>).
\<close>

datatype zod_reason = Required | InvalidType | TooSmall | TooBig | InvalidEnumValue
  | Custom jsstring

datatype frag =
    Str jsstring
  | Num real
  | Val js_value
  | Json js_value
  | Issues "(jsstring list \<times> zod_reason) list"

type_synonym message = "frag list"

datatype err_class = CMCPError | CValidationError | CAuthenticationError | CRateLimitError
  | CTimeoutError | CGeminiAPIError

record mcp_error =
  cls :: err_class
  message :: message
  code :: int
  data :: js_value
  originalError :: js_value

text \<open>
  What a \<open>throw\<close> can carry: an instance of \<open>MCPError\<close> or of a subclass, any other
  \<open>Error\<close> (with its message), or a value that is not an \<open>Error\<close>.
\<close>

datatype thrown = MCP mcp_error | JsError message | NonError js_value

definition new_MCPError :: "message \<Rightarrow> mcp_error" where
  "new_MCPError m =
     \<lparr>cls = CMCPError, message = m, code = -32603, data = JUndefined,
          originalError = JUndefined\<rparr>"

definition new_ValidationError :: "message \<Rightarrow> mcp_error" where
  "new_ValidationError m =
     \<lparr>cls = CValidationError, message = m, code = -32602, data = JUndefined,
          originalError = JUndefined\<rparr>"

definition new_RateLimitError :: "message \<Rightarrow> mcp_error" where
  "new_RateLimitError m =
     \<lparr>cls = CRateLimitError, message = m, code = -32002, data = JUndefined,
          originalError = JUndefined\<rparr>"

definition new_GeminiAPIError :: "message \<Rightarrow> js_value \<Rightarrow> mcp_error" where
  "new_GeminiAPIError m orig =
     \<lparr>cls = CGeminiAPIError, message = m, code = -32603, data = orig,
          originalError = orig\<rparr>"

definition isRetryableError :: "thrown \<Rightarrow> bool" where
  "isRetryableError error =
     (case error of
        MCP e \<Rightarrow>
          if cls e = CGeminiAPIError then
            (let status = opt_member (originalError e) (js ''status'') in
               status = JStr (js ''UNAVAILABLE'') \<or>
               status = JStr (js ''RESOURCE_EXHAUSTED'') \<or>
               status = JStr (js ''INTERNAL'') \<or>
               opt_member (originalError e) (js ''code'') = JNum 503 \<or>
               opt_member (originalError e) (js ''code'') = JNum 429)
          else False
      | _ \<Rightarrow> False)"

text \<open>
  The delays are numbers of milliseconds held in doubles, computed from a whole attempt
  index and a whole \<open>baseDelay\<close>. Of the doubles only three kinds arise there: a whole
  number, \<open>Infinity\<close> and \<open>NaN\<close>. \<open>Math.pow(2, n)\<close> is exact up to \<open>n = 1023\<close> and
  \<open>Infinity\<close> beyond; a product with a power of two is exact while it stays below
  \<open>2 ^ 1024\<close> and \<open>Infinity\<close> beyond; \<open>0 * Infinity\<close> is \<open>NaN\<close>; \<open>Math.min\<close> returns
  \<open>NaN\<close> when an argument is \<open>NaN\<close>. \<open>baseDelay\<close> is a whole number that a double holds
  exactly (such as the default 1000).
\<close>

datatype double = Whole nat | Infinity | NaN

definition Math_pow2 :: "nat \<Rightarrow> double" where
  "Math_pow2 n = (if n \<le> 1023 then Whole (2 ^ n) else Infinity)"

fun js_times :: "nat \<Rightarrow> double \<Rightarrow> double" where
  "js_times b (Whole p) = (if b * p < 2 ^ 1024 then Whole (b * p) else Infinity)"
| "js_times b Infinity = (if b = 0 then NaN else Infinity)"
| "js_times b NaN = NaN"

fun Math_min :: "double \<Rightarrow> double \<Rightarrow> double" where
  "Math_min NaN y = NaN"
| "Math_min x NaN = NaN"
| "Math_min Infinity y = y"
| "Math_min x Infinity = x"
| "Math_min (Whole a) (Whole b) = Whole (min a b)"

text \<open>
  The timer of the platform (\<open>setTimeout\<close> of Node.js) waits the delay it is given when
  that lies between 1 and \<open>2 ^ 31 - 1\<close> ms, and 1 ms otherwise.
\<close>

definition setTimeout_wait :: "double \<Rightarrow> nat" where
  "setTimeout_wait delay =
     (case delay of
        Whole d \<Rightarrow> if 1 \<le> d \<and> d \<le> 2 ^ 31 - 1 then d else 1
      | _ \<Rightarrow> 1)"

definition getRetryDelay :: "nat \<Rightarrow> double" where
  "getRetryDelay attempt = Math_min (js_times 1000 (Math_pow2 attempt)) (Whole 16000)"

text \<open>
  \<open>withRetry\<close>. The operation is a thunk with effects: \<open>operation k\<close> is the outcome of
  its invocation number \<open>k\<close> (from 0), \<open>Inl\<close> a rejection with the value thrown. A run
  records the outcome, how many times the operation was invoked and the delays handed
  to \<open>setTimeout\<close>, in order. \<open>lastError\<close> starts as \<open>undefined\<close>. \<open>maxAttempts\<close> is a
  whole number.
\<close>

record 'a retry_run =
  outcome :: "thrown + 'a"
  invocations :: nat
  slept :: "double list"

function withRetry_from ::
  "(nat \<Rightarrow> thrown + 'a) \<Rightarrow> nat \<Rightarrow> nat \<Rightarrow> nat \<Rightarrow> thrown \<Rightarrow> 'a retry_run" where
  "withRetry_from operation maxAttempts baseDelay attempt lastError =
     (if attempt < maxAttempts then
        (case operation attempt of
           Inr v \<Rightarrow> \<lparr>outcome = Inr v, invocations = 1, slept = []\<rparr>
         | Inl error \<Rightarrow>
             if attempt = maxAttempts - 1 \<or> \<not> isRetryableError error then
               \<lparr>outcome = Inl error, invocations = 1, slept = []\<rparr>
             else
               (let delay = js_times baseDelay (Math_pow2 attempt);
                    r = withRetry_from operation maxAttempts baseDelay (attempt + 1) error
                in r\<lparr>invocations := invocations r + 1, slept := delay # slept r\<rparr>))
      else \<lparr>outcome = Inl lastError, invocations = 0, slept = []\<rparr>)"
  by pat_completeness auto
termination
  by (relation "measure (\<lambda>(operation, maxAttempts, baseDelay, attempt, lastError).
        maxAttempts - attempt)") auto

declare withRetry_from.simps [simp del]

definition withRetry :: "(nat \<Rightarrow> thrown + 'a) \<Rightarrow> nat \<Rightarrow> nat \<Rightarrow> 'a retry_run" where
  "withRetry operation maxAttempts baseDelay =
     withRetry_from operation maxAttempts baseDelay 0 (NonError JUndefined)"

section \<open>Validation (utils/validation.ts)\<close>

text \<open>
  The character class \<open>[\x00-\x08\x0B\x0C\x0E-\x1F\x7F]\<close> as its list of ranges, and the
  global replacement of every match of a class by the empty string: a scan from the
  left that drops a matching code unit and copies any other.
\<close>

definition control_class :: "(code_unit \<times> code_unit) list" where
  "control_class = [(0x00, 0x08), (0x0B, 0x0B), (0x0C, 0x0C), (0x0E, 0x1F), (0x7F, 0x7F)]"

definition class_matches :: "(code_unit \<times> code_unit) list \<Rightarrow> code_unit \<Rightarrow> bool" where
  "class_matches ranges c = list_ex (\<lambda>(lo, hi). lo \<le> c \<and> c \<le> hi) ranges"

fun replace_class :: "(code_unit \<times> code_unit) list \<Rightarrow> jsstring \<Rightarrow> jsstring" where
  "replace_class ranges [] = []"
| "replace_class ranges (c # cs) =
     (if class_matches ranges c then replace_class ranges cs
      else c # replace_class ranges cs)"

definition sanitizeString :: "js_value \<Rightarrow> int \<Rightarrow> thrown + jsstring" where
  "sanitizeString input maxLength =
     (case input of
        JStr s \<Rightarrow>
          if int (length s) > maxLength then
            Inl (MCP (new_ValidationError
                   [Str (js ''Input too long (max ''), Num (of_int maxLength),
                    Str (js '' characters)'')]))
          else Inr (replace_class control_class s)
      | _ \<Rightarrow> Inl (MCP (new_ValidationError [Str (js ''Input must be a string'')])))"

abbreviation sanitizeString_default :: "js_value \<Rightarrow> thrown + jsstring" where
  "sanitizeString_default input \<equiv> sanitizeString input 10000"

definition validateMCPRequest :: "js_value \<Rightarrow> thrown + unit" where
  "validateMCPRequest request =
     (if \<not> truthy request \<or> typeof request \<noteq> T_object then
        Inl (MCP (new_ValidationError [Str (js ''Request must be an object'')]))
      else if member request (js ''jsonrpc'') \<noteq> JStr (js ''2.0'') then
        Inl (MCP (new_ValidationError [Str (js ''Invalid JSON-RPC version'')]))
      else if typeof (member request (js ''method'')) \<noteq> T_string then
        Inl (MCP (new_ValidationError [Str (js ''Method must be a string'')]))
      else if member request (js ''id'') = JUndefined \<or> member request (js ''id'') = JNull then
        Inl (MCP (new_ValidationError [Str (js ''Request ID is required'')]))
      else Inr ())"

section \<open>Rate limiter (utils/rateLimiter.ts)\<close>

record RateLimitEntry =
  count :: int
  resetTime :: int

record RateLimiter =
  requests :: "jsstring \<rightharpoonup> RateLimitEntry"
  maxRequests :: int
  windowMs :: int

text \<open>
  \<open>checkLimit\<close> reads \<open>config.rateLimitEnabled\<close> and the clock \<open>Date.now()\<close>
  (milliseconds); both are arguments here. It returns the error thrown, if any, and
  the limiter after the call.
\<close>

definition checkLimit ::
  "bool \<Rightarrow> RateLimiter \<Rightarrow> jsstring \<Rightarrow> int \<Rightarrow> (thrown + unit) \<times> RateLimiter" where
  "checkLimit rateLimitEnabled rl identifier now =
     (if \<not> rateLimitEnabled then (Inr (), rl)
      else
        (case requests rl identifier of
           None \<Rightarrow>
             (Inr (), rl\<lparr>requests := (requests rl)(identifier \<mapsto>
                \<lparr>count = 1, resetTime = now + windowMs rl\<rparr>)\<rparr>)
         | Some entry \<Rightarrow>
             if now \<ge> resetTime entry then
               (Inr (), rl\<lparr>requests := (requests rl)(identifier \<mapsto>
                  entry\<lparr>count := 1, resetTime := now + windowMs rl\<rparr>)\<rparr>)
             else if count entry \<ge> maxRequests rl then
               (let resetIn = \<lceil>(of_int (resetTime entry - now) :: real) / 1000\<rceil> in
                  (Inl (MCP (new_RateLimitError
                          [Str (js ''Rate limit exceeded. Try again in ''),
                           Num (of_int resetIn), Str (js '' seconds.'')])), rl))
             else
               (Inr (), rl\<lparr>requests := (requests rl)(identifier \<mapsto>
                  entry\<lparr>count := count entry + 1\<rparr>)\<rparr>)))"


section \<open>Operators on values\<close>

definition js_or :: "js_value \<Rightarrow> js_value \<Rightarrow> js_value" where
  \<comment> \<open>\<open>a || b\<close>\<close>
  "js_or a b = (if truthy a then a else b)"

definition array_includes :: "js_value \<Rightarrow> js_value \<Rightarrow> bool" where
  \<comment> \<open>\<open>xs.includes(v)\<close> on an array\<close>
  "array_includes xs v = (case xs of JArr vs \<Rightarrow> v \<in> set vs | _ \<Rightarrow> False)"

definition entries :: "js_value \<Rightarrow> (jsstring \<times> js_value) list" where
  \<comment> \<open>\<open>Object.entries(o)\<close>\<close>
  "entries v = (case v of JObj fs \<Rightarrow> fs | _ \<Rightarrow> [])"

definition entries_of_array :: "js_value \<Rightarrow> js_value list" where
  \<comment> \<open>the elements that \<open>...xs\<close> spreads\<close>
  "entries_of_array v = (case v of JArr vs \<Rightarrow> vs | _ \<Rightarrow> [])"

definition index_by :: "js_value \<Rightarrow> js_value \<Rightarrow> js_value" where
  \<comment> \<open>\<open>o[k]\<close> for a string key \<open>k\<close>\<close>
  "index_by v k = (case k of JStr s \<Rightarrow> member v s | _ \<Rightarrow> JUndefined)"

definition opt_length :: "js_value \<Rightarrow> js_value" where
  \<comment> \<open>\<open>v?.length\<close>\<close>
  "opt_length v =
     (case v of JArr vs \<Rightarrow> JNum (of_nat (length vs)) | JStr s \<Rightarrow> JNum (of_nat (length s))
      | JObj fs \<Rightarrow> member v (js ''length'') | _ \<Rightarrow> JUndefined)"

definition opt_first :: "js_value \<Rightarrow> js_value" where
  \<comment> \<open>\<open>v?.[0]\<close>\<close>
  "opt_first v =
     (case v of JArr (x # xs) \<Rightarrow> x | JStr (c # cs) \<Rightarrow> JStr [c]
      | JObj fs \<Rightarrow> member v (js ''0'') | _ \<Rightarrow> JUndefined)"

definition try_bind :: "thrown + 'a \<Rightarrow> ('a \<Rightarrow> thrown + 'b) \<Rightarrow> thrown + 'b" where
  \<comment> \<open>sequencing inside a \<open>try\<close> block: the first throw leaves it\<close>
  "try_bind r f = (case r of Inl e \<Rightarrow> Inl e | Inr v \<Rightarrow> f v)"

section \<open>Responses\<close>

text \<open>
  The \<open>result\<close> member of a success response. The tables returned by
  \<open>getAvailableTools\<close>, \<open>getAvailableResources\<close> and \<open>getAvailablePrompts\<close> and the fixed
  answer to \<open>initialize\<close> are constants of the source, kept as names. A tool result is
  its text (one content item of type \<open>text\<close>) and its metadata object, \<open>undefined\<close> when
  there is none.
\<close>

datatype result = ServerInfo | Tools | Resources | Prompts | ToolContent message js_value

text \<open>
  A success carries the id and the result; a failure carries the id and the code,
  message and data of its \<open>error\<close> member (\<open>undefined\<close> for no data).
\<close>

datatype response = Success js_value result | Failure js_value int message js_value

definition toMCPResponse :: "mcp_error \<Rightarrow> js_value \<Rightarrow> response" where
  "toMCPResponse e rid =
     Failure rid (code e) (message e) (if truthy (data e) then data e else JUndefined)"

definition message_or :: "thrown \<Rightarrow> message \<Rightarrow> message" where
  \<comment> \<open>\<open>error instanceof Error ? error.message : dflt\<close>\<close>
  "message_or error dflt =
     (case error of MCP e \<Rightarrow> message e | JsError m \<Rightarrow> m | NonError v \<Rightarrow> dflt)"

section \<open>Model table (enhanced-stdio-server.ts)\<close>

definition strs :: "string list \<Rightarrow> js_value" where
  "strs xs = JArr (map (\<lambda>s. JStr (js s)) xs)"

definition GEMINI_MODELS :: js_value where
  "GEMINI_MODELS = JObj
     [(js ''gemini-2.5-pro'', JObj
         [(js ''description'',
             JStr (js ''Most capable thinking model, best for complex reasoning and coding'')),
          (js ''features'', strs [''thinking'', ''function_calling'', ''json_mode'',
             ''grounding'', ''system_instructions'']),
          (js ''contextWindow'', JNum 2000000),
          (js ''thinking'', JBool True)]),
      (js ''gemini-2.5-flash'', JObj
         [(js ''description'',
             JStr (js ''Fast thinking model with best price/performance ratio'')),
          (js ''features'', strs [''thinking'', ''function_calling'', ''json_mode'',
             ''grounding'', ''system_instructions'']),
          (js ''contextWindow'', JNum 1000000),
          (js ''thinking'', JBool True)]),
      (js ''gemini-2.5-flash-lite'', JObj
         [(js ''description'',
             JStr (js ''Ultra-fast, cost-efficient thinking model for high-throughput tasks'')),
          (js ''features'', strs [''thinking'', ''function_calling'', ''json_mode'',
             ''system_instructions'']),
          (js ''contextWindow'', JNum 1000000),
          (js ''thinking'', JBool True)]),
      (js ''gemini-2.0-flash'', JObj
         [(js ''description'', JStr (js ''Fast, efficient model with 1M context window'')),
          (js ''features'', strs [''function_calling'', ''json_mode'', ''grounding'',
             ''system_instructions'']),
          (js ''contextWindow'', JNum 1000000)]),
      (js ''gemini-2.0-flash-lite'', JObj
         [(js ''description'', JStr (js ''Most cost-efficient model for simple tasks'')),
          (js ''features'', strs [''function_calling'', ''json_mode'', ''system_instructions'']),
          (js ''contextWindow'', JNum 1000000)]),
      (js ''gemini-2.0-pro-experimental'', JObj
         [(js ''description'',
             JStr (js ''Experimental model with 2M context, excellent for coding'')),
          (js ''features'', strs [''function_calling'', ''json_mode'', ''grounding'',
             ''system_instructions'']),
          (js ''contextWindow'', JNum 2000000)]),
      (js ''gemini-1.5-pro'', JObj
         [(js ''description'', JStr (js ''Previous generation pro model'')),
          (js ''features'', strs [''function_calling'', ''json_mode'', ''system_instructions'']),
          (js ''contextWindow'', JNum 2000000)]),
      (js ''gemini-1.5-flash'', JObj
         [(js ''description'', JStr (js ''Previous generation fast model'')),
          (js ''features'', strs [''function_calling'', ''json_mode'', ''system_instructions'']),
          (js ''contextWindow'', JNum 1000000)])]"

text \<open>\<open>{ name, ...info }\<close>\<close>

definition named :: "jsstring \<times> js_value \<Rightarrow> js_value" where
  "named entry = JObj ((js ''name'', JStr (fst entry)) # entries (snd entry))"

definition listModels :: "js_value \<Rightarrow> js_value \<Rightarrow> response" where
  "listModels rid args =
     (let fltr = js_or (opt_member args (js ''filter'')) (JStr (js ''all''));
          models =
            (if fltr \<noteq> JStr (js ''all'') then
               filter (\<lambda>(name, info).
                 if fltr = JStr (js ''thinking'') then
                   has_own info (js ''thinking'') \<and> member info (js ''thinking'') = JBool True
                 else if fltr = JStr (js ''vision'') then
                   array_includes (member info (js ''features'')) (JStr (js ''function_calling''))
                 else if fltr = JStr (js ''grounding'') then
                   array_includes (member info (js ''features'')) (JStr (js ''grounding''))
                 else if fltr = JStr (js ''json_mode'') then
                   array_includes (member info (js ''features'')) (JStr (js ''json_mode''))
                 else True) (entries GEMINI_MODELS)
             else entries GEMINI_MODELS);
          modelList = map named models
      in Success rid
           (ToolContent [Json (JArr modelList)]
              (JObj [(js ''count'', JNum (of_nat (length modelList))), (js ''filter'', fltr)])))"

section \<open>Tool parameter schemas (utils/validation.ts)\<close>

text \<open>
  The behaviour of the zod schemas the source builds. A schema for one value gives the
  reasons for which the value is rejected, none when it is accepted. The texts of zod's
  own messages are not modelled: a reason is \<open>Required\<close> (the value is \<open>undefined\<close>),
  \<open>InvalidType\<close>, \<open>TooSmall\<close>, \<open>TooBig\<close>, \<open>InvalidEnumValue\<close>, or \<open>Custom m\<close> with
  the message \<open>m\<close> that the source passes to \<open>min\<close>, \<open>refine\<close>, \<open>regex\<close> or \<open>url\<close>.
\<close>

type_synonym issue = "jsstring list \<times> zod_reason"
type_synonym schema = "js_value \<Rightarrow> zod_reason list"

definition wrong_type :: "js_value \<Rightarrow> zod_reason list" where
  "wrong_type v = (if v = JUndefined then [Required] else [InvalidType])"

definition z_string :: "(jsstring \<Rightarrow> zod_reason list) \<Rightarrow> schema" where
  "z_string checks v = (case v of JStr s \<Rightarrow> checks s | _ \<Rightarrow> wrong_type v)"

definition z_number :: "(real \<Rightarrow> zod_reason list) \<Rightarrow> schema" where
  "z_number checks v = (case v of JNum x \<Rightarrow> checks x | _ \<Rightarrow> wrong_type v)"

definition z_boolean :: schema where
  "z_boolean v = (case v of JBool b \<Rightarrow> [] | _ \<Rightarrow> wrong_type v)"

definition z_enum :: "string list \<Rightarrow> schema" where
  "z_enum options v =
     (case v of
        JStr s \<Rightarrow> if s \<in> set (map js options) then [] else [InvalidEnumValue]
      | _ \<Rightarrow> wrong_type v)"

definition optional :: "schema \<Rightarrow> schema" where
  "optional inner v = (if v = JUndefined then [] else inner v)"

definition min_length :: "nat \<Rightarrow> zod_reason \<Rightarrow> jsstring \<Rightarrow> zod_reason list" where
  "min_length n r s = (if length s < n then [r] else [])"

definition max_length :: "nat \<Rightarrow> zod_reason \<Rightarrow> jsstring \<Rightarrow> zod_reason list" where
  "max_length n r s = (if length s > n then [r] else [])"

definition in_range :: "real \<Rightarrow> real \<Rightarrow> real \<Rightarrow> zod_reason list" where
  \<comment> \<open>\<open>.min(lo).max(hi)\<close> on a number\<close>
  "in_range lo hi x = (if x < lo then [TooSmall] else []) @ (if x > hi then [TooBig] else [])"

definition refine :: "(jsstring \<Rightarrow> bool) \<Rightarrow> jsstring \<Rightarrow> jsstring \<Rightarrow> zod_reason list" where
  "refine ok m s = (if ok s then [] else [Custom m])"

text \<open>
  \<open>z.object(shape).parse(v)\<close>: every field of the shape is checked, in the order of the
  shape, and the issues are collected with the field's name as path; an accepted object
  is returned with the fields of the shape that it has, the others stripped.
\<close>

definition field_issues :: "(jsstring \<times> schema) list \<Rightarrow> js_value \<Rightarrow> issue list" where
  "field_issues shape v =
     concat (map (\<lambda>(k, inner). map (\<lambda>r. ([k], r)) (inner (member v k))) shape)"

definition strip_unknown :: "(jsstring \<times> schema) list \<Rightarrow> js_value \<Rightarrow> js_value" where
  "strip_unknown shape v =
     JObj (map (\<lambda>(k, inner). (k, member v k)) (filter (\<lambda>(k, inner). has_own v k) shape))"

definition z_object :: "(jsstring \<times> schema) list \<Rightarrow> js_value \<Rightarrow> issue list + js_value" where
  "z_object shape v =
     (case v of
        JObj fs \<Rightarrow>
          if field_issues shape v = [] then Inr (strip_unknown shape v)
          else Inl (field_issues shape v)
      | _ \<Rightarrow> Inl (map (\<lambda>r. ([], r)) (wrong_type v)))"

text \<open>
  \<open>CommonSchemas\<close> and \<open>ToolSchemas.generateText\<close>. \<open>JSON.parse\<close> is the platform's: it
  is an argument, \<open>None\<close> where it throws.
\<close>

type_synonym json_parser = "jsstring \<Rightarrow> js_value option"

definition geminiModel :: schema where
  "geminiModel = z_enum [''gemini-2.5-pro'', ''gemini-2.5-flash'', ''gemini-2.5-flash-lite'',
     ''gemini-2.0-flash'', ''gemini-2.0-flash-lite'', ''gemini-2.0-pro-experimental'',
     ''gemini-1.5-pro'', ''gemini-1.5-flash'']"

definition temperature :: schema where
  "temperature = z_number (in_range 0 2)"

definition maxTokens :: schema where
  "maxTokens = z_number (in_range 1 8192)"

definition topK :: schema where
  "topK = z_number (in_range 1 100)"

definition topP :: schema where
  "topP = z_number (in_range 0 1)"

definition conversationId :: schema where
  "conversationId = z_string (\<lambda>s. min_length 1 TooSmall s @ max_length 100 TooBig s)"

definition jsonSchema :: "json_parser \<Rightarrow> schema" where
  "jsonSchema JSON_parse =
     z_string (refine (\<lambda>val. JSON_parse val \<noteq> None) (js ''Must be valid JSON''))"

definition safetySettings :: "json_parser \<Rightarrow> schema" where
  "safetySettings JSON_parse =
     z_string (refine (\<lambda>val. case JSON_parse val of Some (JArr parsed) \<Rightarrow> True | _ \<Rightarrow> False)
                 (js ''Must be valid JSON array''))"

definition generateText_shape :: "json_parser \<Rightarrow> (jsstring \<times> schema) list" where
  "generateText_shape JSON_parse =
     [(js ''prompt'', z_string (min_length 1 (Custom (js ''Prompt is required'')))),
      (js ''model'', optional geminiModel),
      (js ''systemInstruction'', optional (z_string (\<lambda>s. []))),
      (js ''temperature'', optional temperature),
      (js ''maxTokens'', optional maxTokens),
      (js ''topK'', optional topK),
      (js ''topP'', optional topP),
      (js ''jsonMode'', optional z_boolean),
      (js ''jsonSchema'', optional (jsonSchema JSON_parse)),
      (js ''grounding'', optional z_boolean),
      (js ''safetySettings'', optional (safetySettings JSON_parse)),
      (js ''conversationId'', optional conversationId)]"

definition generateText_schema :: "json_parser \<Rightarrow> js_value \<Rightarrow> issue list + js_value" where
  "generateText_schema JSON_parse = z_object (generateText_shape JSON_parse)"

definition validateToolParams ::
  "(js_value \<Rightarrow> issue list + js_value) \<Rightarrow> js_value \<Rightarrow> thrown + js_value" where
  "validateToolParams schema params =
     (case schema params of
        Inr parsed \<Rightarrow> Inr parsed
      | Inl issues \<Rightarrow>
          Inl (MCP (new_ValidationError [Str (js ''Invalid parameters: ''), Issues issues])))"

definition validateJSON :: "json_parser \<Rightarrow> js_value \<Rightarrow> thrown + js_value" where
  \<comment> \<open>the argument is a string wherever the program calls it\<close>
  "validateJSON JSON_parse jsonString =
     (case jsonString of
        JStr s \<Rightarrow>
          (case JSON_parse s of
             Some v \<Rightarrow> Inr v
           | None \<Rightarrow> Inl (MCP (new_ValidationError [Str (js ''Invalid JSON format'')])))
      | _ \<Rightarrow> Inl (MCP (new_ValidationError [Str (js ''Invalid JSON format'')])))"

section \<open>generate_text (enhanced-stdio-server.ts)\<close>

text \<open>
  The server's \<open>conversations\<close> map, from conversation id to the history array. The
  remote \<open>genAI.models.generateContent\<close> is an argument: it gives, for the request it is
  called with, the value the promise resolves to or the value it rejects with.
\<close>

type_synonym conversations = "js_value \<rightharpoonup> js_value list"
type_synonym remote = "js_value \<Rightarrow> thrown + js_value"

definition text_part :: "js_value \<Rightarrow> js_value" where
  \<comment> \<open>\<open>[{ text }]\<close>\<close>
  "text_part t = JArr [JObj [(js ''text'', t)]]"

definition user_content :: "jsstring \<Rightarrow> js_value" where
  "user_content t = JObj [(js ''parts'', text_part (JStr t)), (js ''role'', JStr (js ''user''))]"

definition model_content :: "js_value \<Rightarrow> js_value" where
  "model_content t = JObj [(js ''parts'', text_part t), (js ''role'', JStr (js ''model''))]"

definition get_history :: "conversations \<Rightarrow> js_value \<Rightarrow> js_value list" where
  \<comment> \<open>\<open>this.conversations.get(id) || []\<close>\<close>
  "get_history convs cid = (case convs cid of Some history \<Rightarrow> history | None \<Rightarrow> [])"

definition build_generationConfig :: "json_parser \<Rightarrow> js_value \<Rightarrow> thrown + js_value" where
  "build_generationConfig JSON_parse validatedArgs =
     (let generationConfig =
            [(js ''temperature'', js_or (member validatedArgs (js ''temperature'')) (JNum 0.7)),
             (js ''maxOutputTokens'', js_or (member validatedArgs (js ''maxTokens'')) (JNum 2048)),
             (js ''topK'', js_or (member validatedArgs (js ''topK'')) (JNum 40)),
             (js ''topP'', js_or (member validatedArgs (js ''topP'')) (JNum 0.95))]
      in if truthy (member validatedArgs (js ''jsonMode'')) then
           (if truthy (member validatedArgs (js ''jsonSchema'')) then
              (case validateJSON JSON_parse (member validatedArgs (js ''jsonSchema'')) of
                 Inr responseSchema \<Rightarrow>
                   Inr (JObj (generationConfig @
                     [(js ''responseMimeType'', JStr (js ''application/json'')),
                      (js ''responseSchema'', responseSchema)]))
               | Inl error \<Rightarrow>
                   Inl (MCP (new_ValidationError [Str (js ''Invalid JSON schema format'')])))
            else Inr (JObj (generationConfig @
                   [(js ''responseMimeType'', JStr (js ''application/json''))])))
         else Inr (JObj generationConfig))"

text \<open>
  The steps of \<open>generateText\<close> that complete the request: the system instruction, the
  safety settings (a string that does not parse is logged and left out), the grounding
  tool, and the conversation context. Each gives the properties it adds to the request.
\<close>

definition build_systemInstruction :: "js_value \<Rightarrow> thrown + (jsstring \<times> js_value) list" where
  "build_systemInstruction validatedArgs =
     (if truthy (member validatedArgs (js ''systemInstruction'')) then
        try_bind (sanitizeString_default (member validatedArgs (js ''systemInstruction'')))
          (\<lambda>t. Inr [(js ''systemInstruction'', JObj [(js ''parts'', text_part (JStr t))])])
      else Inr [])"

definition build_safetySettings :: "json_parser \<Rightarrow> js_value \<Rightarrow> (jsstring \<times> js_value) list" where
  "build_safetySettings JSON_parse args =
     (if truthy (member args (js ''safetySettings'')) then
        (case member args (js ''safetySettings'') of
           JStr s \<Rightarrow>
             (case JSON_parse s of
                Some parsed \<Rightarrow> [(js ''safetySettings'', parsed)]
              | None \<Rightarrow> [])
         | v \<Rightarrow> [(js ''safetySettings'', v)])
      else [])"

definition build_tools :: "js_value \<Rightarrow> js_value \<Rightarrow> (jsstring \<times> js_value) list" where
  "build_tools args modelInfo =
     (if truthy (member args (js ''grounding'')) \<and>
         array_includes (member modelInfo (js ''features'')) (JStr (js ''grounding''))
      then [(js ''tools'', JArr [JObj [(js ''googleSearch'', JObj [])]])]
      else [])"

definition build_contents :: "conversations \<Rightarrow> js_value \<Rightarrow> jsstring \<Rightarrow> js_value list" where
  "build_contents convs args prompt =
     (let contents = [user_content prompt]
      in if truthy (member args (js ''conversationId'')) then
           (let history = get_history convs (member args (js ''conversationId''))
            in if length history > 0 then history @ contents else contents)
         else contents)"

text \<open>
  The \<open>try\<close> block of \<open>generateText\<close> up to the remote call: the request handed to
  \<open>generateContent\<close>, or the value thrown before the call is made. \<open>request_from\<close> is
  the part that follows the validation of the parameters.
\<close>

definition request_from ::
  "json_parser \<Rightarrow> conversations \<Rightarrow> js_value \<Rightarrow> js_value \<Rightarrow> thrown + js_value" where
  "request_from JSON_parse convs args validatedArgs =
     (let model = js_or (member validatedArgs (js ''model'')) (JStr (js ''gemini-2.5-flash''));
          modelInfo = index_by GEMINI_MODELS model
      in if \<not> truthy modelInfo then Inl (JsError [Str (js ''Unknown model: ''), Val model])
         else
           try_bind (build_generationConfig JSON_parse validatedArgs) (\<lambda>generationConfig.
           try_bind (sanitizeString_default (member validatedArgs (js ''prompt''))) (\<lambda>prompt.
           try_bind (build_systemInstruction validatedArgs) (\<lambda>systemInstruction.
             Inr (JObj ([(js ''model'', model),
                         (js ''contents'', JArr (build_contents convs args prompt)),
                         (js ''generationConfig'', generationConfig)] @
                        systemInstruction @ build_safetySettings JSON_parse args @
                        build_tools args modelInfo))))))"

definition build_request ::
  "json_parser \<Rightarrow> conversations \<Rightarrow> js_value \<Rightarrow> thrown + js_value" where
  "build_request JSON_parse convs args =
     try_bind (validateToolParams (generateText_schema JSON_parse) args)
       (request_from JSON_parse convs args)"

definition internal_error :: "js_value \<Rightarrow> thrown \<Rightarrow> response" where
  \<comment> \<open>the \<open>catch\<close> block of \<open>generateText\<close>\<close>
  "internal_error rid error =
     Failure rid (-32603) (message_or error [Str (js ''Internal error'')]) JUndefined"

record generateText_run =
  response :: response
  store :: conversations
  sent :: "js_value option"

text \<open>
  \<open>generateText\<close>: the response returned, the conversations afterwards and the request
  passed to the remote call, if the call was made. Reading \<open>result.text\<close> of a result
  that is \<open>undefined\<close> or \<open>null\<close> throws a TypeError, whose text is the engine's.
\<close>

definition generateText ::
  "json_parser \<Rightarrow> remote \<Rightarrow> conversations \<Rightarrow> js_value \<Rightarrow> js_value \<Rightarrow> generateText_run" where
  "generateText JSON_parse generateContent convs rid args =
     (case build_request JSON_parse convs args of
        Inl error \<Rightarrow> \<lparr>response = internal_error rid error, store = convs, sent = None\<rparr>
      | Inr requestBody \<Rightarrow>
          (case generateContent requestBody of
             Inl error \<Rightarrow>
               \<lparr>response = internal_error rid error, store = convs, sent = Some requestBody\<rparr>
           | Inr result \<Rightarrow>
               (case get_prop result (js ''text'') of
                  None \<Rightarrow>
                    \<lparr>response = internal_error rid (JsError [Str (js ''TypeError'')]),
                     store = convs, sent = Some requestBody\<rparr>
                | Some t \<Rightarrow>
                    (let text = js_or t (JStr []);
                         convs' =
                           (if truthy (member args (js ''conversationId'')) then
                              (let history = get_history convs (member args (js ''conversationId''))
                               in convs(member args (js ''conversationId'') \<mapsto>
                                    history @ entries_of_array (member requestBody (js ''contents'')) @
                                    [model_content text]))
                            else convs)
                     in \<lparr>response = Success rid
                           (ToolContent [Val text]
                              (JObj [(js ''model'', member requestBody (js ''model'')),
                                     (js ''tokensUsed'',
                                        opt_member (member result (js ''usageMetadata''))
                                          (js ''totalTokenCount'')),
                                     (js ''candidatesCount'',
                                        js_or (opt_length (member result (js ''candidates'')))
                                          (JNum 1)),
                                     (js ''finishReason'',
                                        opt_member (opt_first (member result (js ''candidates'')))
                                          (js ''finishReason''))])),
                         store = convs', sent = Some requestBody\<rparr>))))"

section \<open>Dispatcher (enhanced-stdio-server.ts)\<close>

text \<open>
  What the server is given: \<open>JSON.parse\<close>, \<open>config.rateLimitEnabled\<close>, the remote
  \<open>generateContent\<close>, and the handlers \<open>analyzeImage\<close>, \<open>countTokens\<close>, \<open>embedText\<close>,
  \<open>getHelp\<close> and \<open>handleResourceRead\<close>, each of which catches what it throws and returns
  one response, and none of which touches the server's state.
\<close>

record env =
  JSON_parse :: json_parser
  rateLimitEnabled :: bool
  generateContent :: remote
  analyzeImage :: "js_value \<Rightarrow> js_value \<Rightarrow> response"
  countTokens :: "js_value \<Rightarrow> js_value \<Rightarrow> response"
  embedText :: "js_value \<Rightarrow> js_value \<Rightarrow> response"
  getHelp :: "js_value \<Rightarrow> js_value \<Rightarrow> response"
  handleResourceRead :: "js_value \<Rightarrow> response"

record server =
  rateLimiter :: RateLimiter
  conversations :: conversations

definition handleToolCall :: "env \<Rightarrow> conversations \<Rightarrow> js_value \<Rightarrow> response \<times> conversations" where
  "handleToolCall env convs request =
     (let params = js_or (member request (js ''params'')) (JObj []);
          name = member params (js ''name'');
          args = member params (js ''arguments'');
          rid = member request (js ''id'')
      in if name = JStr (js ''generate_text'') then
           (let run = generateText (JSON_parse env) (generateContent env) convs rid args
            in (response run, store run))
         else if name = JStr (js ''analyze_image'') then (analyzeImage env rid args, convs)
         else if name = JStr (js ''count_tokens'') then (countTokens env rid args, convs)
         else if name = JStr (js ''list_models'') then (listModels rid args, convs)
         else if name = JStr (js ''embed_text'') then (embedText env rid args, convs)
         else if name = JStr (js ''get_help'') then (getHelp env rid args, convs)
         else (Failure rid (-32601) [Str (js ''Unknown tool: ''), Val name] JUndefined, convs))"

text \<open>
  \<open>handleRequest\<close> on a validated envelope: the responses it writes with
  \<open>sendResponse\<close> and the conversations afterwards. Nothing in its \<open>try\<close> block throws
  here, every handler returning a response.
\<close>

definition handleRequest :: "env \<Rightarrow> conversations \<Rightarrow> js_value \<Rightarrow> response list \<times> conversations" where
  "handleRequest env convs request =
     (let method = member request (js ''method'');
          rid = member request (js ''id'')
      in if method = JStr (js ''initialize'') then ([Success rid ServerInfo], convs)
         else if method = JStr (js ''tools/list'') then ([Success rid Tools], convs)
         else if method = JStr (js ''tools/call'') then
           (let (reply, convs') = handleToolCall env convs request in ([reply], convs'))
         else if method = JStr (js ''resources/list'') then ([Success rid Resources], convs)
         else if method = JStr (js ''resources/read'') then
           ([handleResourceRead env request], convs)
         else if method = JStr (js ''prompts/list'') then ([Success rid Prompts], convs)
         else if \<not> has_own request (js ''id'') then ([], convs)
         else ([Failure rid (-32601) [Str (js ''Method not found'')] JUndefined], convs))"

text \<open>\<open>String.prototype.trim\<close>: white space and line terminators are removed at both ends.\<close>

definition white_space :: "code_unit \<Rightarrow> bool" where
  "white_space c =
     (c \<in> {0x09, 0x0A, 0x0B, 0x0C, 0x0D, 0x20, 0xA0, 0x1680, 0x2028, 0x2029, 0x202F, 0x205F,
            0x3000, 0xFEFF} \<or> (0x2000 \<le> c \<and> c \<le> 0x200A))"

definition trim :: "jsstring \<Rightarrow> jsstring" where
  "trim s = rev (dropWhile white_space (rev (dropWhile white_space s)))"

text \<open>
  The \<open>catch\<close> block of the line handler: the line is parsed again and an error response
  is sent \<open>if (partialRequest.id)\<close>. Reading \<open>id\<close> of \<open>null\<close> throws, and nothing is sent.
\<close>

definition error_reply :: "thrown \<Rightarrow> js_value \<Rightarrow> response list" where
  "error_reply error partialRequest =
     (case get_prop partialRequest (js ''id'') of
        None \<Rightarrow> []
      | Some rid \<Rightarrow>
          if truthy rid then
            [case error of
               MCP e \<Rightarrow> toMCPResponse e rid
             | _ \<Rightarrow> toMCPResponse (new_MCPError [Str (js ''Invalid request format'')]) rid]
          else [])"

text \<open>
  The handler of one input line, at clock reading \<open>now\<close>: the responses written to
  standard output and the server afterwards. A request is handled to its end before the
  next line is looked at.
\<close>

definition on_line :: "env \<Rightarrow> server \<Rightarrow> int \<Rightarrow> jsstring \<Rightarrow> response list \<times> server" where
  "on_line env srv now line =
     (if \<not> truthy (JStr (trim line)) then ([], srv)
      else
        (case JSON_parse env line of
           None \<Rightarrow> ([], srv)
         | Some request \<Rightarrow>
             (case validateMCPRequest request of
                Inl error \<Rightarrow> (error_reply error request, srv)
              | Inr ok \<Rightarrow>
                  (case checkLimit (rateLimitEnabled env) (rateLimiter srv) (js ''default'') now of
                     (Inl error, rl) \<Rightarrow> (error_reply error request, srv\<lparr>rateLimiter := rl\<rparr>)
                   | (Inr ok', rl) \<Rightarrow>
                       (let (out, convs') = handleRequest env (conversations srv) request
                        in (out, \<lparr>rateLimiter = rl, conversations = convs'\<rparr>))))))"

section \<open>Concrete inputs\<close>

text \<open>
  The operations of the unit tests of \<open>withRetry\<close> (tests/unit/errors.test.ts): one that
  always rejects with a \<open>GeminiAPIError\<close> of status \<open>UNAVAILABLE\<close>, one that rejects twice
  and then resolves, one that always rejects with a \<open>ValidationError\<close>.
\<close>

definition unavailable_error :: thrown where
  "unavailable_error =
     MCP (new_GeminiAPIError [Str (js ''Error'')]
            (JObj [(js ''status'', JStr (js ''UNAVAILABLE''))]))"

definition always_unavailable :: "nat \<Rightarrow> thrown + jsstring" where
  "always_unavailable k = Inl unavailable_error"

definition fails_twice :: "nat \<Rightarrow> thrown + jsstring" where
  "fails_twice k = (if k < 2 then Inl unavailable_error else Inr (js ''success''))"

definition invalid_input_error :: thrown where
  "invalid_input_error = MCP (new_ValidationError [Str (js ''Invalid input'')])"

definition always_invalid :: "nat \<Rightarrow> thrown + jsstring" where
  "always_invalid k = Inl invalid_input_error"

text \<open>
  An operation that always rejects with a \<open>GeminiAPIError\<close> whose cause is a bad request
  (status \<open>INVALID_ARGUMENT\<close>, code 400).
\<close>

definition invalid_argument_error :: thrown where
  "invalid_argument_error =
     MCP (new_GeminiAPIError [Str (js ''Error'')]
            (JObj [(js ''status'', JStr (js ''INVALID_ARGUMENT'')), (js ''code'', JNum 400)]))"

definition always_invalid_argument :: "nat \<Rightarrow> thrown + jsstring" where
  "always_invalid_argument k = Inl invalid_argument_error"

text \<open>
  The retryable conditions in the words of the specification: the upstream error carries
  status UNAVAILABLE, RESOURCE_EXHAUSTED or INTERNAL, or numeric code 429 or 503.
\<close>

definition retryable_cause :: "js_value \<Rightarrow> bool" where
  "retryable_cause orig =
     (opt_member orig (js ''status'') \<in>
        {JStr (js ''UNAVAILABLE''), JStr (js ''RESOURCE_EXHAUSTED''), JStr (js ''INTERNAL'')} \<or>
      opt_member orig (js ''code'') \<in> {JNum 429, JNum 503})"

text \<open>Envelopes.\<close>

definition empty_method_request :: js_value where
  "empty_method_request =
     JObj [(js ''jsonrpc'', JStr (js ''2.0'')), (js ''id'', JNum 1), (js ''method'', JStr [])]"

definition tools_list_request :: js_value where
  "tools_list_request =
     JObj [(js ''jsonrpc'', JStr (js ''2.0'')), (js ''id'', JNum 1),
           (js ''method'', JStr (js ''tools/list''))]"


definition two_per_minute :: RateLimiter where
  "two_per_minute = \<lparr>requests = Map.empty, maxRequests = 2, windowMs = 60000\<rparr>"


definition exhausted_limiter :: RateLimiter where
  "exhausted_limiter =
     \<lparr>requests = [js ''default'' \<mapsto> \<lparr>count = 2, resetTime = 60000\<rparr>], maxRequests = 2,
      windowMs = 60000\<rparr>"

text \<open>The entries of the model table whose record has \<open>thinking\<close> equal to \<open>true\<close>.\<close>

definition thinking_models :: "(jsstring \<times> js_value) list" where
  "thinking_models =
     filter (\<lambda>entry. member (snd entry) (js ''thinking'') = JBool True) (entries GEMINI_MODELS)"

text \<open>
  The listing expected of \<open>list_models\<close>, written out: one object for each model, with
  its name first and then the fields of its record in the table; the three thinking
  models come first.
\<close>

definition thinking_listing :: "js_value list" where
  "thinking_listing =
     [JObj [(js ''name'', JStr (js ''gemini-2.5-pro'')),
            (js ''description'',
               JStr (js ''Most capable thinking model, best for complex reasoning and coding'')),
            (js ''features'',
               JArr [JStr (js ''thinking''), JStr (js ''function_calling''),
                     JStr (js ''json_mode''), JStr (js ''grounding''),
                     JStr (js ''system_instructions'')]),
            (js ''contextWindow'', JNum 2000000),
            (js ''thinking'', JBool True)],
      JObj [(js ''name'', JStr (js ''gemini-2.5-flash'')),
            (js ''description'',
               JStr (js ''Fast thinking model with best price/performance ratio'')),
            (js ''features'',
               JArr [JStr (js ''thinking''), JStr (js ''function_calling''),
                     JStr (js ''json_mode''), JStr (js ''grounding''),
                     JStr (js ''system_instructions'')]),
            (js ''contextWindow'', JNum 1000000),
            (js ''thinking'', JBool True)],
      JObj [(js ''name'', JStr (js ''gemini-2.5-flash-lite'')),
            (js ''description'',
               JStr (js ''Ultra-fast, cost-efficient thinking model for high-throughput tasks'')),
            (js ''features'',
               JArr [JStr (js ''thinking''), JStr (js ''function_calling''),
                     JStr (js ''json_mode''), JStr (js ''system_instructions'')]),
            (js ''contextWindow'', JNum 1000000),
            (js ''thinking'', JBool True)]]"

definition full_listing :: "js_value list" where
  "full_listing = thinking_listing @
     [JObj [(js ''name'', JStr (js ''gemini-2.0-flash'')),
            (js ''description'', JStr (js ''Fast, efficient model with 1M context window'')),
            (js ''features'',
               JArr [JStr (js ''function_calling''), JStr (js ''json_mode''),
                     JStr (js ''grounding''), JStr (js ''system_instructions'')]),
            (js ''contextWindow'', JNum 1000000)],
      JObj [(js ''name'', JStr (js ''gemini-2.0-flash-lite'')),
            (js ''description'', JStr (js ''Most cost-efficient model for simple tasks'')),
            (js ''features'',
               JArr [JStr (js ''function_calling''), JStr (js ''json_mode''),
                     JStr (js ''system_instructions'')]),
            (js ''contextWindow'', JNum 1000000)],
      JObj [(js ''name'', JStr (js ''gemini-2.0-pro-experimental'')),
            (js ''description'',
               JStr (js ''Experimental model with 2M context, excellent for coding'')),
            (js ''features'',
               JArr [JStr (js ''function_calling''), JStr (js ''json_mode''),
                     JStr (js ''grounding''), JStr (js ''system_instructions'')]),
            (js ''contextWindow'', JNum 2000000)],
      JObj [(js ''name'', JStr (js ''gemini-1.5-pro'')),
            (js ''description'', JStr (js ''Previous generation pro model'')),
            (js ''features'',
               JArr [JStr (js ''function_calling''), JStr (js ''json_mode''),
                     JStr (js ''system_instructions'')]),
            (js ''contextWindow'', JNum 2000000)],
      JObj [(js ''name'', JStr (js ''gemini-1.5-flash'')),
            (js ''description'', JStr (js ''Previous generation fast model'')),
            (js ''features'',
               JArr [JStr (js ''function_calling''), JStr (js ''json_mode''),
                     JStr (js ''system_instructions'')]),
            (js ''contextWindow'', JNum 1000000)]]"

text \<open>
  A server for the examples: two input lines with their parses, a parser that rejects
  every string, a remote call that answers with a fixed text, and handlers that stand
  for the tools the examples do not call.
\<close>

definition zero_id_line :: jsstring where
  \<open>zero_id_line = js ''{"jsonrpc":"2.0","id":0,"method":"tools/list"}''\<close>

definition zero_id_request :: js_value where
  "zero_id_request =
     JObj [(js ''jsonrpc'', JStr (js ''2.0'')), (js ''id'', JNum 0),
           (js ''method'', JStr (js ''tools/list''))]"

definition one_id_line :: jsstring where
  \<open>one_id_line = js ''{"jsonrpc":"2.0","id":1,"method":"tools/list"}''\<close>

definition parse_two_lines :: json_parser where
  "parse_two_lines line =
     (if line = zero_id_line then Some zero_id_request
      else if line = one_id_line then Some tools_list_request
      else None)"

definition no_json :: json_parser where
  "no_json s = None"

definition replies :: "string \<Rightarrow> remote" where
  "replies t request = Inr (JObj [(js ''text'', JStr (js t))])"

definition unused_tool :: "js_value \<Rightarrow> js_value \<Rightarrow> response" where
  "unused_tool rid args = Failure rid (-32603) [Str (js ''not called'')] JUndefined"

definition test_env :: "json_parser \<Rightarrow> remote \<Rightarrow> env" where
  "test_env parse remote_call =
     \<lparr>JSON_parse = parse, rateLimitEnabled = True, generateContent = remote_call,
      analyzeImage = unused_tool, countTokens = unused_tool, embedText = unused_tool,
      getHelp = unused_tool, handleResourceRead = unused_tool JNull\<rparr>"

definition fresh_server :: server where
  "fresh_server = \<lparr>rateLimiter = two_per_minute, conversations = Map.empty\<rparr>"

definition exhausted_server :: server where
  "exhausted_server = \<lparr>rateLimiter = exhausted_limiter, conversations = Map.empty\<rparr>"

text \<open>
  Two \<open>generate_text\<close> calls on the conversation \<open>c1\<close>, the second on the state the
  first leaves, and the generation config of a call that sets no sampling parameter.
\<close>

definition hi_args :: js_value where
  "hi_args = JObj [(js ''prompt'', JStr (js ''hi'')), (js ''conversationId'', JStr (js ''c1''))]"

definition again_args :: js_value where
  "again_args =
     JObj [(js ''prompt'', JStr (js ''again'')), (js ''conversationId'', JStr (js ''c1''))]"

definition first_call :: generateText_run where
  "first_call = generateText no_json (replies ''hello'') Map.empty (JNum 1) hi_args"

definition second_call :: generateText_run where
  "second_call =
     generateText no_json (replies ''welcome back'') (store first_call) (JNum 2) again_args"

definition default_generationConfig :: js_value where
  "default_generationConfig =
     JObj [(js ''temperature'', JNum 0.7), (js ''maxOutputTokens'', JNum 2048),
           (js ''topK'', JNum 40), (js ''topP'', JNum 0.95)]"

text \<open>
  A \<open>tools/call\<close> envelope, two parameter objects that fail the schema, and the messages
  of the \<open>ValidationError\<close>s they raise.
\<close>

definition tool_call :: "js_value \<Rightarrow> string \<Rightarrow> js_value \<Rightarrow> js_value" where
  "tool_call rid name args =
     JObj [(js ''jsonrpc'', JStr (js ''2.0'')), (js ''id'', rid),
           (js ''method'', JStr (js ''tools/call'')),
           (js ''params'', JObj [(js ''name'', JStr (js name)), (js ''arguments'', args)])]"

definition empty_prompt_args :: js_value where
  "empty_prompt_args = JObj [(js ''prompt'', JStr [])]"

definition hot_args :: js_value where
  "hot_args = JObj [(js ''prompt'', JStr (js ''hi'')), (js ''temperature'', JNum 3)]"

definition prompt_required :: message where
  "prompt_required =
     [Str (js ''Invalid parameters: ''),
      Issues [([js ''prompt''], Custom (js ''Prompt is required''))]]"

definition temperature_too_big :: message where
  "temperature_too_big =
     [Str (js ''Invalid parameters: ''), Issues [([js ''temperature''], TooBig)]]"

text \<open>
  The parameter object without the property \<open>k\<close>, and parameters with both sampling
  parameters set to 0.
\<close>

definition omit :: "jsstring \<Rightarrow> js_value \<Rightarrow> js_value" where
  "omit k v = (case v of JObj fs \<Rightarrow> JObj (filter (\<lambda>p. fst p \<noteq> k) fs) | _ \<Rightarrow> v)"

definition zero_args :: js_value where
  "zero_args =
     JObj [(js ''prompt'', JStr (js ''hi'')), (js ''temperature'', JNum 0), (js ''topP'', JNum 0)]"

section \<open>String literals\<close>

lemma of_char_lt_256: "(of_char c :: nat) < 256"
proof -
  have "(of_char c :: nat) mod 256 = of_char c" by simp
  then show ?thesis by (metis mod_less_divisor zero_less_numeral)
qed

lemma unat_of_char: "unat (of_char c :: code_unit) = of_char c"
proof -
  have lt: "(of_char c :: nat) < 65536" using of_char_lt_256 [of c] by linarith
  have "unat (of_nat (of_char c :: nat) :: code_unit) = of_char c"
    using lt by (simp add: unat_of_nat)
  then show ?thesis by (simp only: of_nat_of_char)
qed

lemma of_char_word_inj: "(of_char c :: code_unit) = of_char d \<longleftrightarrow> c = d"
proof
  assume "(of_char c :: code_unit) = of_char d"
  then have "unat (of_char c :: code_unit) = unat (of_char d :: code_unit)" by simp
  then show "c = d" by (simp add: unat_of_char)
qed simp

lemma js_eq_iff [simp]: "js s = js t \<longleftrightarrow> s = t"
  by (simp add: js_def inj_on_def of_char_word_inj)

lemma js_Nil_iff [simp]: "js s = [] \<longleftrightarrow> s = []"
  by (simp add: js_def)

lemma length_js [simp]: "length (js s) = length s"
  by (simp add: js_def)

section \<open>Retry and backoff\<close>

lemma withRetry_from_run:
  "attempt < maxAttempts \<Longrightarrow>
   withRetry_from operation maxAttempts baseDelay attempt lastError =
     (case operation attempt of
        Inr v \<Rightarrow> \<lparr>outcome = Inr v, invocations = 1, slept = []\<rparr>
      | Inl error \<Rightarrow>
          if attempt = maxAttempts - 1 \<or> \<not> isRetryableError error then
            \<lparr>outcome = Inl error, invocations = 1, slept = []\<rparr>
          else
            (let r = withRetry_from operation maxAttempts baseDelay (attempt + 1) error
             in r\<lparr>invocations := invocations r + 1,
                  slept := js_times baseDelay (Math_pow2 attempt) # slept r\<rparr>))"
  by (subst withRetry_from.simps) (simp add: Let_def split: sum.split)

text \<open>
  After a retryable failure on attempt \<open>n\<close>, an attempt remaining, the loop hands
  \<open>baseDelay * Math.pow(2, n)\<close> to the timer.
\<close>

lemma withRetry_from_slept:
  "a \<le> n \<Longrightarrow> n + 1 < maxAttempts \<Longrightarrow>
   (\<forall>k. a \<le> k \<and> k \<le> n \<longrightarrow> (\<exists>e. operation k = Inl e \<and> isRetryableError e)) \<Longrightarrow>
   n - a < length (slept (withRetry_from operation maxAttempts baseDelay a lastE)) \<and>
   slept (withRetry_from operation maxAttempts baseDelay a lastE) ! (n - a) =
     js_times baseDelay (Math_pow2 n)"
proof (induction "n - a" arbitrary: a lastE)
  case 0
  then have an: "a = n" by simp
  from 0 obtain e where e: "operation n = Inl e" "isRetryableError e" by auto
  show ?case using 0 e an
    by (subst withRetry_from.simps, subst (2) withRetry_from.simps) (simp add: Let_def)
next
  case (Suc d)
  then have lt: "a < n" by simp
  from Suc.prems obtain e where e: "operation a = Inl e" "isRetryableError e" by auto
  have IH: "n - (a + 1) < length (slept (withRetry_from operation maxAttempts baseDelay (a + 1) e)) \<and>
   slept (withRetry_from operation maxAttempts baseDelay (a + 1) e) ! (n - (a + 1)) =
     js_times baseDelay (Math_pow2 n)"
    using Suc.hyps(1) [of "a + 1" e] Suc.hyps(2) Suc.prems lt by auto
  have step: "slept (withRetry_from operation maxAttempts baseDelay a lastE) =
     js_times baseDelay (Math_pow2 a) #
       slept (withRetry_from operation maxAttempts baseDelay (a + 1) e)"
    using Suc.prems e lt by (subst withRetry_from.simps) (simp add: Let_def)
  have na: "n - a = Suc (n - (a + 1))" using lt by simp
  show ?case using IH by (simp add: step na)
qed

lemma pow2_ge_16: "4 \<le> n \<Longrightarrow> (16000::nat) \<le> 1000 * 2 ^ n"
proof -
  assume "4 \<le> n"
  then have "(2::nat) ^ 4 \<le> 2 ^ n" by (intro power_increasing) auto
  then show ?thesis by simp
qed

text \<open>\<open>getRetryDelay\<close> is 16000 ms from attempt 4 on, also where the power overflows.\<close>

lemma getRetryDelay_cap: "4 \<le> n \<Longrightarrow> getRetryDelay n = Whole 16000"
  using pow2_ge_16 [of n] by (simp add: getRetryDelay_def Math_pow2_def min_def)

text \<open>
  The delay of the loop at \<open>baseDelay = 1000\<close> and \<open>getRetryDelay\<close> agree on the attempts
  0 to 4 and on no other.
\<close>

lemma loop_delay_is_getRetryDelay_iff:
  "js_times 1000 (Math_pow2 n) = getRetryDelay n \<longleftrightarrow> n \<le> 4"
proof (cases "n \<le> 4")
  case True
  then have "(2::nat) ^ n \<le> 2 ^ 4" by (intro power_increasing) auto
  then have le: "(1000::nat) * 2 ^ n \<le> 16000" by simp
  have "(16000::nat) < 2 ^ 1024" by simp
  with le have "(1000::nat) * 2 ^ n < 2 ^ 1024" by (rule le_less_trans)
  then show ?thesis using True le by (simp add: getRetryDelay_def Math_pow2_def min_def)
next
  case False
  then have "5 \<le> n" by simp
  then have "(2::nat) ^ 5 \<le> 2 ^ n" by (intro power_increasing) auto
  then have gt: "(16000::nat) < 1000 * 2 ^ n" by simp
  have "js_times 1000 (Math_pow2 n) \<noteq> Whole 16000"
    using gt by (simp add: Math_pow2_def)
  then show ?thesis using False getRetryDelay_cap [of n] by simp
qed

lemma unavailable_retryable: "isRetryableError unavailable_error"
  by (simp add: unavailable_error_def new_GeminiAPIError_def isRetryableError_def
      opt_member_def nullish_def)

lemma invalid_not_retryable: "\<not> isRetryableError invalid_input_error"
  by (simp add: invalid_input_error_def new_ValidationError_def isRetryableError_def)

lemma always_unavailable_run:
  "attempt < 6 \<Longrightarrow>
   slept (withRetry_from always_unavailable 7 1000 attempt lastError) =
     js_times 1000 (Math_pow2 attempt) #
       slept (withRetry_from always_unavailable 7 1000 (attempt + 1) unavailable_error)"
  by (simp add: withRetry_from_run always_unavailable_def unavailable_retryable Let_def)

lemma always_unavailable_last:
  "attempt = 6 \<Longrightarrow> slept (withRetry_from always_unavailable 7 1000 attempt lastError) = []"
  by (simp add: withRetry_from_run always_unavailable_def)

text \<open>
  Claim C3 fails in the code. The claim has the retry loop sleep \<open>getRetryDelay n\<close>
  after a retryable failure on attempt \<open>n\<close>, which is 16000 ms from attempt 4 on. With
  seven attempts allowed, the default \<open>baseDelay\<close> of 1000 ms and an operation that always
  fails with a retryable error, the loop hands the timer 1000, 2000, 4000, 8000, 16000
  and then 32000 ms, and the timer waits each of them in full; \<open>getRetryDelay\<close> gives
  16000 ms for attempt 5. The loop computes \<open>baseDelay * Math.pow(2, attempt)\<close> itself,
  without the \<open>Math.min\<close> of \<open>getRetryDelay\<close>.
\<close>

theorem withRetry_delay_exceeds_ceiling:
  "slept (withRetry always_unavailable 7 1000) =
     [Whole 1000, Whole 2000, Whole 4000, Whole 8000, Whole 16000, Whole 32000] \<and>
   map setTimeout_wait (slept (withRetry always_unavailable 7 1000)) =
     [1000, 2000, 4000, 8000, 16000, 32000] \<and>
   map getRetryDelay [0, 1, 2, 3, 4, 5] =
     [Whole 1000, Whole 2000, Whole 4000, Whole 8000, Whole 16000, Whole 16000]"
proof -
  have s: "slept (withRetry always_unavailable 7 1000) =
     [Whole 1000, Whole 2000, Whole 4000, Whole 8000, Whole 16000, Whole 32000]"
    unfolding withRetry_def
    by (simp add: always_unavailable_run always_unavailable_last Math_pow2_def)
  have g: "map getRetryDelay [0, 1, 2, 3, 4, 5] =
     [Whole 1000, Whole 2000, Whole 4000, Whole 8000, Whole 16000, Whole 16000]"
    by (simp add: getRetryDelay_def Math_pow2_def)
  show ?thesis using g by (simp add: s setTimeout_wait_def)
qed

text \<open>
  The thrown values that \<open>isRetryableError\<close> accepts are exactly the \<open>GeminiAPIError\<close>s
  whose cause carries one of the listed statuses or codes.
\<close>

lemma isRetryableError_iff:
  "isRetryableError err \<longleftrightarrow>
     (\<exists>e. err = MCP e \<and> cls e = CGeminiAPIError \<and> retryable_cause (originalError e))"
  by (cases err) (auto simp add: isRetryableError_def retryable_cause_def Let_def)

text \<open>
  Claim C6. With \<open>maxAttempts = 3\<close>: an operation whose first two invocations fail
  with a retryable error (a \<open>GeminiAPIError\<close> whose cause has status UNAVAILABLE,
  RESOURCE_EXHAUSTED or INTERNAL, or code 429 or 503) and whose third succeeds returns
  the success value after exactly 3 invocations; an operation whose first invocation
  fails with any other thrown value (a \<open>GeminiAPIError\<close> whose cause has none of these
  statuses and codes, an error of another class, a value that is not an error) is
  invoked exactly once and that same value propagates.
\<close>

theorem withRetry_three_attempts:
  "((\<forall>k<2. \<exists>e. operation k = Inl (MCP e) \<and> cls e = CGeminiAPIError \<and>
        retryable_cause (originalError e)) \<and> operation 2 = Inr v \<longrightarrow>
      outcome (withRetry operation 3 baseDelay) = Inr v \<and>
      invocations (withRetry operation 3 baseDelay) = 3) \<and>
   (operation' 0 = Inl err \<and>
      \<not> (\<exists>e. err = MCP e \<and> cls e = CGeminiAPIError \<and> retryable_cause (originalError e)) \<longrightarrow>
      outcome (withRetry operation' 3 baseDelay') = Inl err \<and>
      invocations (withRetry operation' 3 baseDelay') = 1)"
proof (intro conjI impI)
  assume h: "(\<forall>k<2. \<exists>e. operation k = Inl (MCP e) \<and> cls e = CGeminiAPIError \<and>
        retryable_cause (originalError e)) \<and> operation 2 = Inr v"
  from h have "\<exists>e. operation 0 = Inl (MCP e) \<and> cls e = CGeminiAPIError \<and>
        retryable_cause (originalError e)" by simp
  then obtain e0 where e0: "operation 0 = Inl (MCP e0)" "cls e0 = CGeminiAPIError"
      "retryable_cause (originalError e0)" by auto
  from h have "\<exists>e. operation 1 = Inl (MCP e) \<and> cls e = CGeminiAPIError \<and>
        retryable_cause (originalError e)" by simp
  then obtain e1 where e1: "operation 1 = Inl (MCP e1)" "cls e1 = CGeminiAPIError"
      "retryable_cause (originalError e1)" by auto
  have r0: "isRetryableError (MCP e0)" using e0 by (auto simp add: isRetryableError_iff)
  have r1: "isRetryableError (MCP e1)" using e1 by (auto simp add: isRetryableError_iff)
  have run: "withRetry operation 3 baseDelay =
     \<lparr>outcome = Inr v, invocations = 3,
      slept = [js_times baseDelay (Math_pow2 0), js_times baseDelay (Math_pow2 1)]\<rparr>"
  proof -
    have op2: "operation (Suc (Suc 0)) = Inr v" using h by (simp add: numeral_2_eq_2)
    show ?thesis using e0 e1 r0 r1 op2 unfolding withRetry_def
      by (simp add: withRetry_from_run Let_def)
  qed
  show "outcome (withRetry operation 3 baseDelay) = Inr v" by (simp add: run)
  show "invocations (withRetry operation 3 baseDelay) = 3" by (simp add: run)
next
  assume h: "operation' 0 = Inl err \<and>
      \<not> (\<exists>e. err = MCP e \<and> cls e = CGeminiAPIError \<and> retryable_cause (originalError e))"
  then have n: "\<not> isRetryableError err" by (simp add: isRetryableError_iff)
  have run: "withRetry operation' 3 baseDelay' =
     \<lparr>outcome = Inl err, invocations = 1, slept = []\<rparr>"
    using h n unfolding withRetry_def by (simp add: withRetry_from_run)
  show "outcome (withRetry operation' 3 baseDelay') = Inl err" by (simp add: run)
  show "invocations (withRetry operation' 3 baseDelay') = 1" by (simp add: run)
qed

text \<open>
  Claim C6 on the operations of the unit tests, and on an operation that always fails
  with a \<open>GeminiAPIError\<close> whose cause has status INVALID_ARGUMENT.
\<close>

theorem withRetry_three_attempts_witness:
  "fails_twice 0 = Inl unavailable_error \<and> fails_twice 1 = Inl unavailable_error \<and>
   unavailable_error =
     MCP (new_GeminiAPIError [Str (js ''Error'')]
            (JObj [(js ''status'', JStr (js ''UNAVAILABLE''))])) \<and>
   retryable_cause (JObj [(js ''status'', JStr (js ''UNAVAILABLE''))]) \<and>
   fails_twice 2 = Inr (js ''success'') \<and>
   outcome (withRetry fails_twice 3 1000) = Inr (js ''success'') \<and>
   invocations (withRetry fails_twice 3 1000) = 3 \<and>
   always_invalid_argument 0 = Inl invalid_argument_error \<and>
   invalid_argument_error =
     MCP (new_GeminiAPIError [Str (js ''Error'')]
            (JObj [(js ''status'', JStr (js ''INVALID_ARGUMENT'')), (js ''code'', JNum 400)])) \<and>
   \<not> retryable_cause
        (JObj [(js ''status'', JStr (js ''INVALID_ARGUMENT'')), (js ''code'', JNum 400)]) \<and>
   outcome (withRetry always_invalid_argument 3 1000) = Inl invalid_argument_error \<and>
   invocations (withRetry always_invalid_argument 3 1000) = 1 \<and>
   always_invalid 0 = Inl invalid_input_error \<and>
   cls (new_ValidationError [Str (js ''Invalid input'')]) = CValidationError \<and>
   outcome (withRetry always_invalid 3 1000) = Inl invalid_input_error \<and>
   invocations (withRetry always_invalid 3 1000) = 1"
proof -
  have h1: "\<forall>k<2. \<exists>e. fails_twice k = Inl (MCP e) \<and> cls e = CGeminiAPIError \<and>
        retryable_cause (originalError e)"
    by (simp add: fails_twice_def unavailable_error_def new_GeminiAPIError_def
        retryable_cause_def opt_member_def nullish_def)
  have h2: "fails_twice 2 = Inr (js ''success'')" by (simp add: fails_twice_def)
  have h3: "always_invalid 0 = Inl invalid_input_error"
    "always_invalid_argument 0 = Inl invalid_argument_error"
    by (simp_all add: always_invalid_def always_invalid_argument_def)
  have h4: "fails_twice 0 = Inl unavailable_error \<and> fails_twice 1 = Inl unavailable_error \<and>
    retryable_cause (JObj [(js ''status'', JStr (js ''UNAVAILABLE''))])"
    by (simp add: fails_twice_def retryable_cause_def opt_member_def nullish_def)
  have h5: "\<not> retryable_cause
        (JObj [(js ''status'', JStr (js ''INVALID_ARGUMENT'')), (js ''code'', JNum 400)])"
    by (simp add: retryable_cause_def opt_member_def nullish_def)
  have h6: "\<not> (\<exists>e. invalid_argument_error = MCP e \<and> cls e = CGeminiAPIError \<and>
        retryable_cause (originalError e))"
    using h5 by (simp add: invalid_argument_error_def new_GeminiAPIError_def)
  have h7: "\<not> (\<exists>e. invalid_input_error = MCP e \<and> cls e = CGeminiAPIError \<and>
        retryable_cause (originalError e))"
    by (simp add: invalid_input_error_def new_ValidationError_def)
  have a: "outcome (withRetry fails_twice 3 1000) = Inr (js ''success'') \<and>
      invocations (withRetry fails_twice 3 1000) = 3 \<and>
      outcome (withRetry always_invalid_argument 3 1000) = Inl invalid_argument_error \<and>
      invocations (withRetry always_invalid_argument 3 1000) = 1"
    using withRetry_three_attempts [where operation = fails_twice and v = "js ''success''"
        and operation' = always_invalid_argument and err = invalid_argument_error
        and baseDelay = 1000 and baseDelay' = 1000] h1 h2 h3 h6
    by simp
  have b: "outcome (withRetry always_invalid 3 1000) = Inl invalid_input_error \<and>
      invocations (withRetry always_invalid 3 1000) = 1"
    using withRetry_three_attempts [where operation = fails_twice and v = "js ''success''"
        and operation' = always_invalid and err = invalid_input_error
        and baseDelay = 1000 and baseDelay' = 1000] h1 h2 h3 h7
    by simp
  show ?thesis using a b h2 h3 h4 h5
    by (simp add: unavailable_error_def invalid_argument_error_def new_ValidationError_def)
qed

section \<open>Sanitising and envelope validation\<close>

lemma replace_class_filter:
  "replace_class ranges s = filter (\<lambda>c. \<not> class_matches ranges c) s"
  by (induction s) simp_all

lemma control_class_iff:
  "class_matches control_class c \<longleftrightarrow>
     c \<in> {0x00..0x08} \<union> {0x0B, 0x0C} \<union> {0x0E..0x1F} \<union> {0x7F}"
  by (auto simp add: class_matches_def control_class_def)

text \<open>
  Claim C7. For a string no longer than \<open>maxLength\<close>, \<open>sanitizeString\<close> returns the
  input without the code units 0x00-0x08, 0x0B, 0x0C, 0x0E-0x1F and 0x7F, every other
  code unit (newline 0x0A and tab 0x09 among them) kept in order; it throws a
  \<open>ValidationError\<close> for a longer string and for an input that is not a string; and
  \<open>sanitizeString("a\x00b\x01c") = "abc"\<close> with the default \<open>maxLength\<close> of 10000.
\<close>

theorem sanitizeString_strips_controls:
  "(int (length s) \<le> maxLength \<longrightarrow>
      sanitizeString (JStr s) maxLength =
        Inr (filter (\<lambda>c. c \<notin> {0x00..0x08} \<union> {0x0B, 0x0C} \<union> {0x0E..0x1F} \<union> {0x7F}) s)) \<and>
   (int (length s) > maxLength \<longrightarrow>
      (\<exists>m. sanitizeString (JStr s) maxLength = Inl (MCP (new_ValidationError m)))) \<and>
   (typeof v \<noteq> T_string \<longrightarrow>
      (\<exists>m. sanitizeString v maxLength = Inl (MCP (new_ValidationError m)))) \<and>
   sanitizeString_default (JStr [0x61, 0x00, 0x62, 0x01, 0x63]) = Inr (js ''abc'') \<and>
   sanitizeString_default (JStr [0x0A, 0x09]) = Inr [0x0A, 0x09]"
proof (intro conjI impI)
  assume "int (length s) \<le> maxLength"
  then show "sanitizeString (JStr s) maxLength =
      Inr (filter (\<lambda>c. c \<notin> {0x00..0x08} \<union> {0x0B, 0x0C} \<union> {0x0E..0x1F} \<union> {0x7F}) s)"
    by (simp add: sanitizeString_def replace_class_filter control_class_iff)
next
  assume "int (length s) > maxLength"
  then show "\<exists>m. sanitizeString (JStr s) maxLength = Inl (MCP (new_ValidationError m))"
    by (auto simp add: sanitizeString_def)
next
  assume "typeof v \<noteq> T_string"
  then show "\<exists>m. sanitizeString v maxLength = Inl (MCP (new_ValidationError m))"
    by (cases v) (auto simp add: sanitizeString_def)
next
  show "sanitizeString_default (JStr [0x61, 0x00, 0x62, 0x01, 0x63]) = Inr (js ''abc'')"
    by (simp add: sanitizeString_def class_matches_def control_class_def js_def)
next
  show "sanitizeString_default (JStr [0x0A, 0x09]) = Inr [0x0A, 0x09]"
    by (simp add: sanitizeString_def class_matches_def control_class_def)
qed

text \<open>Claim C7 on a short string, on a string over the limit and on a number.\<close>

theorem sanitizeString_strips_controls_witness:
  "int (length (js ''a b'')) \<le> 10000 \<and>
   sanitizeString (JStr (js ''a b'')) 10000 = Inr (js ''a b'') \<and>
   int (length (js ''abc'')) > 2 \<and>
   (\<exists>m. sanitizeString (JStr (js ''abc'')) 2 = Inl (MCP (new_ValidationError m))) \<and>
   typeof (JNum 123) \<noteq> T_string \<and>
   (\<exists>m. sanitizeString (JNum 123) 10000 = Inl (MCP (new_ValidationError m)))"
  using sanitizeString_strips_controls [of "js ''a b''" 10000 "JNum 123"]
    sanitizeString_strips_controls [of "js ''abc''" 2 "JNum 123"]
  by (simp add: js_def)

text \<open>
  Claim C8 as stated fails on an envelope whose method is the empty string: the check
  is \<open>typeof request.method !== 'string'\<close>, and the envelope is accepted.
\<close>

theorem validateMCPRequest_counterexample:
  "member empty_method_request (js ''method'') = JStr [] \<and>
   validateMCPRequest empty_method_request = Inr ()"
  by (simp add: empty_method_request_def validateMCPRequest_def)

text \<open>
  Claim C8, as amended. \<open>validateMCPRequest\<close> accepts exactly the messages that are
  objects, whose \<open>jsonrpc\<close> is \<open>"2.0"\<close>, whose \<open>method\<close> is a string (the empty string
  included) and whose \<open>id\<close> is neither \<open>undefined\<close> nor \<open>null\<close>; on every other message
  it throws a \<open>ValidationError\<close>.
\<close>

theorem validateMCPRequest_accepts_iff:
  "(validateMCPRequest request = Inr () \<longleftrightarrow>
      request \<noteq> JNull \<and> typeof request = T_object \<and>
      member request (js ''jsonrpc'') = JStr (js ''2.0'') \<and>
      typeof (member request (js ''method'')) = T_string \<and>
      member request (js ''id'') \<noteq> JUndefined \<and> member request (js ''id'') \<noteq> JNull) \<and>
   (validateMCPRequest request \<noteq> Inr () \<longrightarrow>
      (\<exists>m. validateMCPRequest request = Inl (MCP (new_ValidationError m))))"
  by (cases request) (auto simp add: validateMCPRequest_def)

text \<open>The amended claim C8 on a \<open>tools/list\<close> envelope and on a string.\<close>

theorem validateMCPRequest_accepts_iff_witness:
  "validateMCPRequest tools_list_request = Inr () \<and>
   validateMCPRequest (JStr (js ''tools/list'')) \<noteq> Inr () \<and>
   (\<exists>m. validateMCPRequest (JStr (js ''tools/list'')) = Inl (MCP (new_ValidationError m)))"
  using validateMCPRequest_accepts_iff [of tools_list_request]
    validateMCPRequest_accepts_iff [of "JStr (js ''tools/list'')"]
  by (simp add: tools_list_request_def)

section \<open>Rate limiting\<close>







section \<open>list_models\<close>

lemma thinking_models_names:
  "map fst thinking_models =
     [js ''gemini-2.5-pro'', js ''gemini-2.5-flash'', js ''gemini-2.5-flash-lite'']"
  by (simp add: thinking_models_def GEMINI_MODELS_def entries_def)

lemma thinking_filter:
  "filter (\<lambda>(name, info). has_own info (js ''thinking'') \<and> member info (js ''thinking'') = JBool True)
     (entries GEMINI_MODELS) = thinking_models"
  by (simp add: thinking_models_def GEMINI_MODELS_def entries_def has_own_def)

lemma length_models: "length (entries GEMINI_MODELS) = 8"
  by (simp add: GEMINI_MODELS_def entries_def)

lemma named_thinking_models: "map named thinking_models = thinking_listing"
  by (simp add: thinking_models_def GEMINI_MODELS_def entries_def named_def strs_def
      thinking_listing_def)

lemma named_models: "map named (entries GEMINI_MODELS) = full_listing"
  by (simp add: GEMINI_MODELS_def entries_def named_def strs_def full_listing_def
      thinking_listing_def)

lemma length_thinking_models: "length thinking_models = 3"
  using arg_cong [OF thinking_models_names, of length] by simp

lemma length_listings: "length thinking_listing = 3" "length full_listing = 8"
  by (simp_all add: full_listing_def thinking_listing_def)

text \<open>
  Claim C9. \<open>list_models\<close> with filter \<open>"thinking"\<close> returns exactly the entries of the
  model table whose record has \<open>thinking\<close> equal to \<open>true\<close>: the three 2.5 models, each
  listed as an object with its name, description, features, context window and thinking
  flag. With a filter value outside \<open>all\<close>, \<open>thinking\<close>, \<open>vision\<close>, \<open>grounding\<close>,
  \<open>json_mode\<close> it succeeds and returns the full table of 8 models, each listed with its
  name and the fields of its record. In both cases the metadata count is the number of
  models returned. The metadata filter is the value read from the arguments, or \<open>"all"\<close>
  when that value is falsy; for arguments that are an array it is the array method
  \<open>filter\<close>, a function, which \<open>JSON.stringify\<close> leaves out of the text on the wire.
\<close>

theorem listModels_filter:
  "(opt_member args (js ''filter'') = JStr (js ''thinking'') \<longrightarrow>
      listModels rid args =
        Success rid (ToolContent [Json (JArr thinking_listing)]
          (JObj [(js ''count'', JNum 3), (js ''filter'', JStr (js ''thinking''))]))) \<and>
   (opt_member args (js ''filter'') \<notin>
        {JStr (js ''all''), JStr (js ''thinking''), JStr (js ''vision''),
         JStr (js ''grounding''), JStr (js ''json_mode'')} \<longrightarrow>
      listModels rid args =
        Success rid (ToolContent [Json (JArr full_listing)]
          (JObj [(js ''count'', JNum 8),
                 (js ''filter'', js_or (opt_member args (js ''filter'')) (JStr (js ''all'')))]))) \<and>
   length thinking_listing = 3 \<and> length full_listing = 8 \<and>
   full_listing =
     map (\<lambda>(name, info). JObj ((js ''name'', JStr name) # entries info))
       (entries GEMINI_MODELS) \<and>
   thinking_listing =
     map (\<lambda>(name, info). JObj ((js ''name'', JStr name) # entries info))
       (filter (\<lambda>(name, info). member info (js ''thinking'') = JBool True)
          (entries GEMINI_MODELS)) \<and>
   map fst (filter (\<lambda>(name, info). member info (js ''thinking'') = JBool True)
          (entries GEMINI_MODELS)) =
     [js ''gemini-2.5-pro'', js ''gemini-2.5-flash'', js ''gemini-2.5-flash-lite'']"
proof (intro conjI impI)
  assume "opt_member args (js ''filter'') = JStr (js ''thinking'')"
  then show "listModels rid args =
        Success rid (ToolContent [Json (JArr thinking_listing)]
          (JObj [(js ''count'', JNum 3), (js ''filter'', JStr (js ''thinking''))]))"
    by (simp add: listModels_def js_or_def Let_def thinking_filter named_thinking_models
        length_thinking_models)
next
  assume h: "opt_member args (js ''filter'') \<notin>
        {JStr (js ''all''), JStr (js ''thinking''), JStr (js ''vision''),
         JStr (js ''grounding''), JStr (js ''json_mode'')}"
  show "listModels rid args =
        Success rid (ToolContent [Json (JArr full_listing)]
          (JObj [(js ''count'', JNum 8),
                 (js ''filter'', js_or (opt_member args (js ''filter'')) (JStr (js ''all'')))]))"
  proof (cases "truthy (opt_member args (js ''filter''))")
    case True
    then show ?thesis using h
      by (simp add: listModels_def js_or_def Let_def named_models length_models)
  next
    case False
    then show ?thesis
      by (simp add: listModels_def js_or_def Let_def named_models length_models)
  qed
next
  show "full_listing =
     map (\<lambda>(name, info). JObj ((js ''name'', JStr name) # entries info))
       (entries GEMINI_MODELS)"
    by (simp add: GEMINI_MODELS_def entries_def strs_def full_listing_def thinking_listing_def)
next
  show "thinking_listing =
     map (\<lambda>(name, info). JObj ((js ''name'', JStr name) # entries info))
       (filter (\<lambda>(name, info). member info (js ''thinking'') = JBool True)
          (entries GEMINI_MODELS))"
    by (simp add: GEMINI_MODELS_def entries_def strs_def thinking_listing_def)
next
  show "map fst (filter (\<lambda>(name, info). member info (js ''thinking'') = JBool True)
          (entries GEMINI_MODELS)) =
     [js ''gemini-2.5-pro'', js ''gemini-2.5-flash'', js ''gemini-2.5-flash-lite'']"
    by (simp add: GEMINI_MODELS_def entries_def)
qed (simp_all add: length_listings)

text \<open>
  Claim C9 on the filters \<open>"thinking"\<close> and \<open>"audio"\<close>, and on arguments that are an
  empty array.
\<close>

theorem listModels_filter_witness:
  "opt_member (JObj [(js ''filter'', JStr (js ''thinking''))]) (js ''filter'') =
     JStr (js ''thinking'') \<and>
   listModels (JNum 1) (JObj [(js ''filter'', JStr (js ''thinking''))]) =
     Success (JNum 1) (ToolContent [Json (JArr thinking_listing)]
       (JObj [(js ''count'', JNum 3), (js ''filter'', JStr (js ''thinking''))])) \<and>
   opt_member (JObj [(js ''filter'', JStr (js ''audio''))]) (js ''filter'') = JStr (js ''audio'') \<and>
   listModels (JNum 2) (JObj [(js ''filter'', JStr (js ''audio''))]) =
     Success (JNum 2) (ToolContent [Json (JArr full_listing)]
       (JObj [(js ''count'', JNum 8), (js ''filter'', JStr (js ''audio''))])) \<and>
   opt_member (JArr []) (js ''filter'') = JBuiltin (js ''Array.prototype.filter'') \<and>
   listModels (JNum 3) (JArr []) =
     Success (JNum 3) (ToolContent [Json (JArr full_listing)]
       (JObj [(js ''count'', JNum 8),
              (js ''filter'', JBuiltin (js ''Array.prototype.filter''))]))"
proof -
  have m: "opt_member (JObj [(js ''filter'', JStr (js ''thinking''))]) (js ''filter'') =
     JStr (js ''thinking'')"
    "opt_member (JObj [(js ''filter'', JStr (js ''audio''))]) (js ''filter'') = JStr (js ''audio'')"
    "opt_member (JArr []) (js ''filter'') = JBuiltin (js ''Array.prototype.filter'')"
    by (simp_all add: opt_member_def nullish_def)
  show ?thesis
    using listModels_filter [of "JObj [(js ''filter'', JStr (js ''thinking''))]" "JNum 1"]
      listModels_filter [of "JObj [(js ''filter'', JStr (js ''audio''))]" "JNum 2"]
      listModels_filter [of "JArr []" "JNum 3"] m
    by (simp add: js_or_def)
qed

section \<open>The line handler\<close>

lemma lines_differ: "zero_id_line \<noteq> one_id_line"
  by (simp add: zero_id_line_def one_id_line_def)

text \<open>
  Claim C1 fails on the code. The envelope \<open>{"jsonrpc":"2.0","id":0,"method":"tools/list"}\<close>
  is valid and is answered with id 0 while the limit is not reached; yet when the rate
  limiter rejects it no response is written: the \<open>catch\<close> block answers only
  \<open>if (partialRequest.id)\<close>, and 0 is falsy. The same line with id 1 gets its one
  response, the rate-limit failure.
\<close>

theorem rate_limited_zero_id_gets_no_response:
  "fst (on_line (test_env parse_two_lines (replies ''ok'')) fresh_server 1000 zero_id_line) =
     [Success (JNum 0) Tools] \<and>
   on_line (test_env parse_two_lines (replies ''ok'')) exhausted_server 1000 zero_id_line =
     ([], exhausted_server) \<and>
   on_line (test_env parse_two_lines (replies ''ok'')) exhausted_server 1000 one_id_line =
     ([Failure (JNum 1) (-32002)
         [Str (js ''Rate limit exceeded. Try again in ''), Num 59, Str (js '' seconds.'')]
         JUndefined], exhausted_server)"
proof -
  have v0: "validateMCPRequest zero_id_request = Inr ()"
    by (simp add: validateMCPRequest_def zero_id_request_def)
  have v1: "validateMCPRequest tools_list_request = Inr ()"
    by (simp add: validateMCPRequest_def tools_list_request_def)
  have t0: "trim zero_id_line \<noteq> []" "trim one_id_line \<noteq> []"
    by (simp_all add: trim_def zero_id_line_def one_id_line_def js_def white_space_def)
  have lim: "checkLimit True exhausted_limiter (js ''default'') 1000 =
     (Inl (MCP (new_RateLimitError
        [Str (js ''Rate limit exceeded. Try again in ''), Num 59, Str (js '' seconds.'')])),
      exhausted_limiter)"
    by (simp add: checkLimit_def exhausted_limiter_def Let_def)
  have s: "exhausted_server\<lparr>rateLimiter := exhausted_limiter\<rparr> = exhausted_server"
    by (simp add: exhausted_server_def)
  have r0: "error_reply (MCP (new_RateLimitError m)) zero_id_request = []" for m
    by (simp add: error_reply_def get_prop_def nullish_def zero_id_request_def)
  have r1: "error_reply (MCP (new_RateLimitError m)) tools_list_request =
     [Failure (JNum 1) (-32002) m JUndefined]" for m
    by (simp add: error_reply_def get_prop_def nullish_def tools_list_request_def
        toMCPResponse_def new_RateLimitError_def)
  have e: "JSON_parse (test_env parse_two_lines (replies ''ok'')) = parse_two_lines"
    "rateLimitEnabled (test_env parse_two_lines (replies ''ok''))"
    "rateLimiter exhausted_server = exhausted_limiter"
    by (simp_all add: test_env_def exhausted_server_def)
  have p: "parse_two_lines zero_id_line = Some zero_id_request"
    "parse_two_lines one_id_line = Some tools_list_request"
    using lines_differ by (simp_all add: parse_two_lines_def)
  have f: "rateLimiter fresh_server = two_per_minute"
    "checkLimit True two_per_minute (js ''default'') 1000 =
       (Inr (), two_per_minute\<lparr>requests := [js ''default'' \<mapsto> \<lparr>count = 1, resetTime = 61000\<rparr>]\<rparr>)"
    by (simp_all add: fresh_server_def checkLimit_def two_per_minute_def)
  have h: "handleRequest env convs zero_id_request = ([Success (JNum 0) Tools], convs)"
    for env convs
    by (simp add: handleRequest_def zero_id_request_def)
  show ?thesis
    by (simp add: on_line_def t0 e p v0 v1 lim r0 r1 s f h)
qed

section \<open>generate_text\<close>

lemmas schema_defs = generateText_schema_def generateText_shape_def field_issues_def
  strip_unknown_def z_object_def z_string_def z_number_def
  z_boolean_def z_enum_def optional_def min_length_def max_length_def in_range_def refine_def
  geminiModel_def temperature_def maxTokens_def topK_def topP_def conversationId_def
  jsonSchema_def safetySettings_def wrong_type_def validateToolParams_def has_own_def

lemmas request_defs = build_request_def request_from_def build_generationConfig_def try_bind_def js_or_def
  index_by_def GEMINI_MODELS_def strs_def array_includes_def get_history_def
  sanitizeString_def user_content_def text_part_def build_systemInstruction_def
  build_safetySettings_def build_tools_def build_contents_def

lemma sanitize_hi: "replace_class control_class (js ''hi'') = js ''hi''"
  by (simp add: js_def class_matches_def control_class_def)

lemma sanitize_again: "replace_class control_class (js ''again'') = js ''again''"
  by (simp add: js_def class_matches_def control_class_def)

lemma first_request:
  "build_request no_json Map.empty hi_args =
     Inr (JObj [(js ''model'', JStr (js ''gemini-2.5-flash'')),
                (js ''contents'', JArr [user_content (js ''hi'')]),
                (js ''generationConfig'', default_generationConfig)])"
  by (simp add: hi_args_def schema_defs request_defs sanitize_hi default_generationConfig_def
      Let_def)

lemma hi_cid: "member hi_args (js ''conversationId'') = JStr (js ''c1'')"
  by (simp add: hi_args_def)

lemma again_cid: "member again_args (js ''conversationId'') = JStr (js ''c1'')"
  by (simp add: again_args_def)

lemmas run_defs = generateText_def replies_def get_prop_def nullish_def js_or_def
  get_history_def entries_of_array_def opt_member_def opt_length_def opt_first_def

lemma first_call_run:
  "first_call =
     \<lparr>response = Success (JNum 1) (ToolContent [Val (JStr (js ''hello''))]
         (JObj [(js ''model'', JStr (js ''gemini-2.5-flash'')), (js ''tokensUsed'', JUndefined),
                (js ''candidatesCount'', JNum 1), (js ''finishReason'', JUndefined)])),
      store = [JStr (js ''c1'') \<mapsto> [user_content (js ''hi''), model_content (JStr (js ''hello''))]],
      sent = Some (JObj [(js ''model'', JStr (js ''gemini-2.5-flash'')),
                (js ''contents'', JArr [user_content (js ''hi'')]),
                (js ''generationConfig'', default_generationConfig)])\<rparr>"
  by (simp add: first_call_def run_defs first_request hi_cid Let_def)

lemma second_request:
  "build_request no_json
       [JStr (js ''c1'') \<mapsto> [user_content (js ''hi''), model_content (JStr (js ''hello''))]]
       again_args =
     Inr (JObj [(js ''model'', JStr (js ''gemini-2.5-flash'')),
                (js ''contents'', JArr [user_content (js ''hi''), model_content (JStr (js ''hello'')),
                   user_content (js ''again'')]),
                (js ''generationConfig'', default_generationConfig)])"
  by (simp add: again_args_def schema_defs request_defs sanitize_again
      default_generationConfig_def Let_def)

text \<open>
  Claim C2 fails on the code. The request of the second call is the stored history
  followed by the new user message, as claimed; but after the call the stored history
  holds the first exchange twice: \<open>history.push(...requestBody.contents)\<close> appends the
  contents of the request, which already start with the history.
\<close>

theorem second_call_duplicates_history:
  "store first_call (JStr (js ''c1'')) =
     Some [user_content (js ''hi''), model_content (JStr (js ''hello''))] \<and>
   map_option (\<lambda>request. member request (js ''contents'')) (sent second_call) =
     Some (JArr [user_content (js ''hi''), model_content (JStr (js ''hello'')),
                 user_content (js ''again'')]) \<and>
   store second_call (JStr (js ''c1'')) =
     Some [user_content (js ''hi''), model_content (JStr (js ''hello'')),
           user_content (js ''hi''), model_content (JStr (js ''hello'')),
           user_content (js ''again''), model_content (JStr (js ''welcome back''))]"
  by (simp add: second_call_def first_call_run run_defs second_request again_cid Let_def)

lemma empty_prompt_invalid:
  "validateToolParams (generateText_schema no_json) empty_prompt_args =
     Inl (MCP (new_ValidationError prompt_required))"
  by (simp add: empty_prompt_args_def schema_defs prompt_required_def)

lemma hot_invalid:
  "validateToolParams (generateText_schema no_json) hot_args =
     Inl (MCP (new_ValidationError temperature_too_big))"
  by (simp add: hot_args_def schema_defs temperature_too_big_def)

lemma tool_call_parts:
  "member (tool_call rid name args) (js ''method'') = JStr (js ''tools/call'')"
  "member (tool_call rid name args) (js ''id'') = rid"
  "member (tool_call rid name args) (js ''params'') =
     JObj [(js ''name'', JStr (js name)), (js ''arguments'', args)]"
  by (simp_all add: tool_call_def)

text \<open>
  Claim C4 fails on the code. Parameters that fail the schema raise a \<open>ValidationError\<close>,
  whose code is -32602, but the \<open>catch\<close> block of \<open>generateText\<close> answers every error with
  the code -32603: so for an empty prompt, and for a temperature of 3.
\<close>

theorem invalid_generate_text_is_internal_error:
  "validateToolParams (generateText_schema no_json) empty_prompt_args =
     Inl (MCP (new_ValidationError prompt_required)) \<and>
   code (new_ValidationError prompt_required) = -32602 \<and>
   handleRequest (test_env no_json (replies ''ok'')) Map.empty
       (tool_call (JNum 1) ''generate_text'' empty_prompt_args) =
     ([Failure (JNum 1) (-32603) prompt_required JUndefined], Map.empty) \<and>
   validateToolParams (generateText_schema no_json) hot_args =
     Inl (MCP (new_ValidationError temperature_too_big)) \<and>
   handleRequest (test_env no_json (replies ''ok'')) Map.empty
       (tool_call (JNum 2) ''generate_text'' hot_args) =
     ([Failure (JNum 2) (-32603) temperature_too_big JUndefined], Map.empty)"
  by (simp add: empty_prompt_invalid hot_invalid handleRequest_def handleToolCall_def
      tool_call_parts js_or_def generateText_def build_request_def try_bind_def test_env_def
      internal_error_def message_or_def new_ValidationError_def Let_def)

subsection \<open>A sampling parameter of 0\<close>

lemma map_of_filter_key:
  "map_of (filter (\<lambda>p. fst p \<noteq> k) fs) k' = (if k' = k then None else map_of fs k')"
  by (induction fs) auto

lemma member_omit:
  "k \<noteq> js ''filter'' \<Longrightarrow>
   member (omit k v) k' = (if k' = k then JUndefined else member v k')"
  by (cases v) (auto simp add: omit_def map_of_filter_key)

lemma map_of_shape:
  "map_of (map (\<lambda>(k, inner). (k, f k)) (filter (\<lambda>(k, inner). P k) shape)) k' =
     (if k' \<in> fst ` set shape \<and> P k' then Some (f k') else None)"
  by (induction shape) (auto simp add: image_iff)

lemma member_not_own:
  "k \<noteq> js ''filter'' \<Longrightarrow> \<not> has_own v k \<Longrightarrow> member v k = JUndefined"
  by (cases v) (auto simp add: has_own_def)

lemma member_strip_unknown:
  assumes "js ''filter'' \<notin> fst ` set shape"
  shows "member (strip_unknown shape v) k =
     (if k \<in> fst ` set shape then member v k else JUndefined)"
proof (cases "k \<in> fst ` set shape")
  case True
  then have "k \<noteq> js ''filter''" using assms by blast
  then show ?thesis
    using True member_not_own [of k v] by (simp add: strip_unknown_def map_of_shape)
next
  case False
  then show ?thesis by (simp add: strip_unknown_def map_of_shape)
qed

lemma member_is_object: "member v k = JNum x \<Longrightarrow> \<exists>fs. v = JObj fs"
  by (cases v) (simp_all split: if_splits)

lemma omit_object: "omit k (JObj fs) = JObj (filter (\<lambda>p. fst p \<noteq> k) fs)"
  by (simp add: omit_def)

lemma zero_is_valid:
  "optional temperature (JNum 0) = []" "optional topP (JNum 0) = []"
  "optional temperature JUndefined = []" "optional topP JUndefined = []"
  by (simp_all add: optional_def temperature_def topP_def z_number_def in_range_def)

lemma issues_omit_temperature:
  "member args (js ''temperature'') = JNum 0 \<Longrightarrow>
   field_issues (generateText_shape P) (omit (js ''temperature'') args) =
     field_issues (generateText_shape P) args"
  by (simp add: field_issues_def generateText_shape_def member_omit zero_is_valid)

lemma issues_omit_topP:
  "member args (js ''topP'') = JNum 0 \<Longrightarrow>
   field_issues (generateText_shape P) (omit (js ''topP'') args) =
     field_issues (generateText_shape P) args"
  by (simp add: field_issues_def generateText_shape_def member_omit zero_is_valid)

lemma no_filter_key: "js ''filter'' \<notin> fst ` set (generateText_shape P)"
  by (simp add: generateText_shape_def)

lemma shape_keys:
  "fst ` set (generateText_shape P) =
     {js ''prompt'', js ''model'', js ''systemInstruction'', js ''temperature'',
      js ''maxTokens'', js ''topK'', js ''topP'', js ''jsonMode'', js ''jsonSchema'',
      js ''grounding'', js ''safetySettings'', js ''conversationId''}"
  by (simp add: generateText_shape_def)

lemma generationConfig_cong:
  assumes t: "t = js ''temperature'' \<or> t = js ''topP''"
    and same: "\<And>k. k \<noteq> t \<Longrightarrow> member v' k = member v k"
    and zero: "member v t = JNum 0" and gone: "member v' t = JUndefined"
  shows "build_generationConfig P v' = build_generationConfig P v"
proof -
  have s: "member v' (js ''maxTokens'') = member v (js ''maxTokens'')"
    "member v' (js ''topK'') = member v (js ''topK'')"
    "member v' (js ''jsonMode'') = member v (js ''jsonMode'')"
    "member v' (js ''jsonSchema'') = member v (js ''jsonSchema'')"
    using t by (auto intro!: same)
  have d: "js_or (member v' (js ''temperature'')) (JNum 0.7) =
           js_or (member v (js ''temperature'')) (JNum 0.7)"
    "js_or (member v' (js ''topP'')) (JNum 0.95) = js_or (member v (js ''topP'')) (JNum 0.95)"
    using t zero gone same [of "js ''temperature''"] same [of "js ''topP''"]
    by (auto simp add: js_or_def)
  show ?thesis
    unfolding build_generationConfig_def by (simp only: s d)
qed

lemma request_from_cong:
  assumes t: "t = js ''temperature'' \<or> t = js ''topP''"
    and same: "\<And>k. k \<noteq> t \<Longrightarrow> member v' k = member v k"
    and zero: "member v t = JNum 0" and gone: "member v' t = JUndefined"
    and args: "\<And>k. k \<noteq> t \<Longrightarrow> member a' k = member a k"
  shows "request_from P convs a' v' = request_from P convs a v"
proof -
  have s: "member v' (js ''model'') = member v (js ''model'')"
    "member v' (js ''prompt'') = member v (js ''prompt'')"
    "member v' (js ''systemInstruction'') = member v (js ''systemInstruction'')"
    using t by (auto intro!: same)
  have a: "member a' (js ''safetySettings'') = member a (js ''safetySettings'')"
    "member a' (js ''grounding'') = member a (js ''grounding'')"
    "member a' (js ''conversationId'') = member a (js ''conversationId'')"
    using t by (auto intro!: args)
  have g: "build_generationConfig P v' = build_generationConfig P v"
    using generationConfig_cong [OF t same zero gone] by simp
  have i: "build_systemInstruction v' = build_systemInstruction v"
    unfolding build_systemInstruction_def by (simp only: s)
  have f: "build_safetySettings P a' = build_safetySettings P a"
    unfolding build_safetySettings_def by (simp only: a)
  have o: "build_tools a' mi = build_tools a mi" for mi
    unfolding build_tools_def by (simp only: a)
  have c: "build_contents convs a' p = build_contents convs a p" for p
    unfolding build_contents_def by (simp only: a)
  show ?thesis
    unfolding request_from_def by (simp only: s g i f o c)
qed

lemma z_object_JObj:
  "z_object shape (JObj fs) =
     (if field_issues shape (JObj fs) = [] then Inr (strip_unknown shape (JObj fs))
      else Inl (field_issues shape (JObj fs)))"
  by (simp add: z_object_def)

lemma build_request_omit_zero:
  assumes t: "t = js ''temperature'' \<or> t = js ''topP''"
    and zero: "member args t = JNum 0"
  shows "build_request P convs (omit t args) = build_request P convs args"
proof -
  from zero member_is_object [of args t 0] obtain fs where fs: "args = JObj fs" by auto
  obtain fs' where fs': "omit t args = JObj fs'" by (simp add: fs omit_object)
  have iss: "field_issues (generateText_shape P) (omit t args) =
             field_issues (generateText_shape P) args"
    using t zero issues_omit_temperature issues_omit_topP by blast
  show ?thesis
  proof (cases "field_issues (generateText_shape P) args = []")
    case False
    then show ?thesis
      using iss by (simp add: build_request_def validateToolParams_def generateText_schema_def
          fs [symmetric] fs' [symmetric] z_object_JObj [of _ fs, folded fs]
          z_object_JObj [of _ fs', folded fs'] try_bind_def)
  next
    case True
    define v where "v = strip_unknown (generateText_shape P) args"
    define v' where "v' = strip_unknown (generateText_shape P) (omit t args)"
    have tk: "t \<in> fst ` set (generateText_shape P)" using t by (auto simp add: shape_keys)
    have tf: "t \<noteq> js ''filter''" using t by auto
    note ms = member_strip_unknown [OF no_filter_key]
    have same: "member v' k = member v k" if "k \<noteq> t" for k
      using that by (simp add: v_def v'_def ms member_omit [OF tf])
    have z: "member v t = JNum 0" using tk zero by (simp add: v_def ms)
    have g: "member v' t = JUndefined" by (simp add: v'_def ms member_omit [OF tf])
    have a: "member (omit t args) k = member args k" if "k \<noteq> t" for k
      using that by (simp add: member_omit [OF tf])
    have l: "build_request P convs (omit t args) = request_from P convs (omit t args) v'"
      using True iss
      by (simp add: build_request_def validateToolParams_def generateText_schema_def
          z_object_JObj [of _ fs', folded fs'] try_bind_def v'_def)
    have r: "build_request P convs args = request_from P convs args v"
      using True
      by (simp add: build_request_def validateToolParams_def generateText_schema_def
          z_object_JObj [of _ fs, folded fs] try_bind_def v_def)
    show ?thesis
      using request_from_cong [OF t same z g a] by (simp add: l r)
  qed
qed

lemma generateText_omit_zero:
  assumes t: "t = js ''temperature'' \<or> t = js ''topP''"
    and zero: "member args t = JNum 0"
  shows "generateText P R convs rid (omit t args) = generateText P R convs rid args"
proof -
  have c: "member (omit t args) (js ''conversationId'') = member args (js ''conversationId'')"
    using t by (auto simp add: member_omit)
  show ?thesis
    unfolding generateText_def by (simp only: build_request_omit_zero [OF t zero] c)
qed

lemma try_bind_Inr: "try_bind r f = Inr y \<Longrightarrow> \<exists>x. r = Inr x \<and> f x = Inr y"
  by (cases r) (simp_all add: try_bind_def)

lemma sent_build_request:
  "sent (generateText P R convs rid args) = Some request \<Longrightarrow>
   build_request P convs args = Inr request"
  by (auto simp add: generateText_def Let_def split: sum.splits option.splits)

lemma z_object_Inr:
  "z_object shape v = Inr out \<Longrightarrow> out = strip_unknown shape v"
  by (cases v) (simp_all add: z_object_def split: if_splits)

lemma build_request_validated:
  assumes "build_request P convs args = Inr request"
  shows "request_from P convs args (strip_unknown (generateText_shape P) args) = Inr request"
proof -
  from try_bind_Inr [OF assms [unfolded build_request_def]]
  obtain v where v: "validateToolParams (generateText_schema P) args = Inr v"
    and r: "request_from P convs args v = Inr request" by blast
  from v have "generateText_schema P args = Inr v"
    by (simp add: validateToolParams_def split: sum.splits)
  then have "v = strip_unknown (generateText_shape P) args"
    by (simp add: generateText_schema_def z_object_Inr)
  with r show ?thesis by simp
qed

lemma request_from_generationConfig:
  assumes "request_from P convs a v = Inr request"
  shows "build_generationConfig P v = Inr (member request (js ''generationConfig''))"
proof -
  define model where "model = js_or (member v (js ''model'')) (JStr (js ''gemini-2.5-flash''))"
  define modelInfo where "modelInfo = index_by GEMINI_MODELS model"
  have b: "try_bind (build_generationConfig P v) (\<lambda>generationConfig.
           try_bind (sanitizeString_default (member v (js ''prompt''))) (\<lambda>prompt.
           try_bind (build_systemInstruction v) (\<lambda>systemInstruction.
             Inr (JObj ([(js ''model'', model),
                         (js ''contents'', JArr (build_contents convs a prompt)),
                         (js ''generationConfig'', generationConfig)] @
                        systemInstruction @ build_safetySettings P a @
                        build_tools a modelInfo))))) = Inr request"
    using assms unfolding request_from_def model_def modelInfo_def Let_def
    by (simp split: if_splits)
  from try_bind_Inr [OF b] obtain gc where gc: "build_generationConfig P v = Inr gc"
    and b2: "try_bind (sanitizeString_default (member v (js ''prompt''))) (\<lambda>prompt.
           try_bind (build_systemInstruction v) (\<lambda>systemInstruction.
             Inr (JObj ([(js ''model'', model),
                         (js ''contents'', JArr (build_contents convs a prompt)),
                         (js ''generationConfig'', gc)] @
                        systemInstruction @ build_safetySettings P a @
                        build_tools a modelInfo)))) = Inr request" by blast
  from try_bind_Inr [OF b2] obtain prompt where
    b3: "try_bind (build_systemInstruction v) (\<lambda>systemInstruction.
             Inr (JObj ([(js ''model'', model),
                         (js ''contents'', JArr (build_contents convs a prompt)),
                         (js ''generationConfig'', gc)] @
                        systemInstruction @ build_safetySettings P a @
                        build_tools a modelInfo))) = Inr request" by blast
  from try_bind_Inr [OF b3] obtain si where
    "request = JObj ([(js ''model'', model),
                         (js ''contents'', JArr (build_contents convs a prompt)),
                         (js ''generationConfig'', gc)] @
                        si @ build_safetySettings P a @ build_tools a modelInfo)" by auto
  then have "member request (js ''generationConfig'') = gc" by simp
  with gc show ?thesis by simp
qed

lemma generationConfig_members:
  "build_generationConfig P v = Inr gc \<Longrightarrow>
   member gc (js ''temperature'') = js_or (member v (js ''temperature'')) (JNum 0.7) \<and>
   member gc (js ''topP'') = js_or (member v (js ''topP'')) (JNum 0.95)"
  by (auto simp add: build_generationConfig_def Let_def split: if_splits sum.splits)

lemma sent_generationConfig:
  assumes "sent (generateText P R convs rid args) = Some request"
  shows "member (member request (js ''generationConfig'')) (js ''temperature'') =
           js_or (member args (js ''temperature'')) (JNum 0.7) \<and>
         member (member request (js ''generationConfig'')) (js ''topP'') =
           js_or (member args (js ''topP'')) (JNum 0.95)"
proof -
  define v where "v = strip_unknown (generateText_shape P) args"
  have "request_from P convs args v = Inr request"
    using build_request_validated [OF sent_build_request [OF assms]] by (simp add: v_def)
  then have "build_generationConfig P v = Inr (member request (js ''generationConfig''))"
    by (rule request_from_generationConfig)
  from generationConfig_members [OF this] show ?thesis
    by (simp add: v_def member_strip_unknown [OF no_filter_key] shape_keys)
qed

text \<open>
  Claim C10. When the parameters of a \<open>generate_text\<close> call have temperature 0, the
  generation config of the request sent to the remote call has temperature 0.7, and the
  whole run (response, stored conversations, request sent) is the run of the same call
  with the temperature omitted; likewise \<open>topP\<close> 0 becomes 0.95.
\<close>

theorem zero_sampling_is_default:
  "(member args (js ''temperature'') = JNum 0 \<longrightarrow>
      generateText P R convs rid (omit (js ''temperature'') args) =
        generateText P R convs rid args \<and>
      (\<forall>request. sent (generateText P R convs rid args) = Some request \<longrightarrow>
         member (member request (js ''generationConfig'')) (js ''temperature'') = JNum 0.7)) \<and>
   (member args (js ''topP'') = JNum 0 \<longrightarrow>
      generateText P R convs rid (omit (js ''topP'') args) =
        generateText P R convs rid args \<and>
      (\<forall>request. sent (generateText P R convs rid args) = Some request \<longrightarrow>
         member (member request (js ''generationConfig'')) (js ''topP'') = JNum 0.95))"
proof (intro conjI impI allI)
  assume z: "member args (js ''temperature'') = JNum 0"
  show "generateText P R convs rid (omit (js ''temperature'') args) =
        generateText P R convs rid args"
    using generateText_omit_zero [of "js ''temperature''" args] z by simp
  fix request
  assume "sent (generateText P R convs rid args) = Some request"
  from sent_generationConfig [OF this] z
  show "member (member request (js ''generationConfig'')) (js ''temperature'') = JNum 0.7"
    by (simp add: js_or_def)
next
  assume z: "member args (js ''topP'') = JNum 0"
  show "generateText P R convs rid (omit (js ''topP'') args) =
        generateText P R convs rid args"
    using generateText_omit_zero [of "js ''topP''" args] z by simp
  fix request
  assume "sent (generateText P R convs rid args) = Some request"
  from sent_generationConfig [OF this] z
  show "member (member request (js ''generationConfig'')) (js ''topP'') = JNum 0.95"
    by (simp add: js_or_def)
qed

lemma zero_request:
  "build_request no_json Map.empty zero_args =
     Inr (JObj [(js ''model'', JStr (js ''gemini-2.5-flash'')),
                (js ''contents'', JArr [user_content (js ''hi'')]),
                (js ''generationConfig'', default_generationConfig)])"
  by (simp add: zero_args_def schema_defs request_defs sanitize_hi default_generationConfig_def
      Let_def)

lemma zero_sent:
  "sent (generateText no_json (replies ''ok'') Map.empty (JNum 1) zero_args) =
     Some (JObj [(js ''model'', JStr (js ''gemini-2.5-flash'')),
                (js ''contents'', JArr [user_content (js ''hi'')]),
                (js ''generationConfig'', default_generationConfig)])"
  by (simp add: generateText_def zero_request replies_def get_prop_def nullish_def Let_def)

text \<open>Claim C10 on a call with temperature 0 and \<open>topP\<close> 0.\<close>

theorem zero_sampling_is_default_witness:
  "member zero_args (js ''temperature'') = JNum 0 \<and>
   member zero_args (js ''topP'') = JNum 0 \<and>
   sent (generateText no_json (replies ''ok'') Map.empty (JNum 1) zero_args) =
     Some (JObj [(js ''model'', JStr (js ''gemini-2.5-flash'')),
                 (js ''contents'', JArr [user_content (js ''hi'')]),
                 (js ''generationConfig'', default_generationConfig)]) \<and>
   member default_generationConfig (js ''temperature'') = JNum 0.7 \<and>
   member default_generationConfig (js ''topP'') = JNum 0.95 \<and>
   generateText no_json (replies ''ok'') Map.empty (JNum 1) (omit (js ''temperature'') zero_args) =
     generateText no_json (replies ''ok'') Map.empty (JNum 1) zero_args \<and>
   generateText no_json (replies ''ok'') Map.empty (JNum 1) (omit (js ''topP'') zero_args) =
     generateText no_json (replies ''ok'') Map.empty (JNum 1) zero_args"
proof -
  have m: "member zero_args (js ''temperature'') = JNum 0"
    "member zero_args (js ''topP'') = JNum 0"
    by (simp_all add: zero_args_def)
  have g: "member (JObj [(js ''model'', JStr (js ''gemini-2.5-flash'')),
                 (js ''contents'', JArr [user_content (js ''hi'')]),
                 (js ''generationConfig'', default_generationConfig)]) (js ''generationConfig'') =
           default_generationConfig"
    by simp
  show ?thesis
    using zero_sampling_is_default [of zero_args no_json "replies ''ok''" Map.empty "JNum 1"]
      m zero_sent g
    by simp
qed

subsection \<open>Conversation history\<close>

lemma request_from_contents:
  assumes "request_from P convs a v = Inr request"
  shows "\<exists>prompt. sanitizeString_default (member v (js ''prompt'')) = Inr prompt \<and>
           member request (js ''contents'') = JArr (build_contents convs a prompt)"
proof -
  define model where "model = js_or (member v (js ''model'')) (JStr (js ''gemini-2.5-flash''))"
  define modelInfo where "modelInfo = index_by GEMINI_MODELS model"
  have b: "try_bind (build_generationConfig P v) (\<lambda>generationConfig.
           try_bind (sanitizeString_default (member v (js ''prompt''))) (\<lambda>prompt.
           try_bind (build_systemInstruction v) (\<lambda>systemInstruction.
             Inr (JObj ([(js ''model'', model),
                         (js ''contents'', JArr (build_contents convs a prompt)),
                         (js ''generationConfig'', generationConfig)] @
                        systemInstruction @ build_safetySettings P a @
                        build_tools a modelInfo))))) = Inr request"
    using assms unfolding request_from_def model_def modelInfo_def Let_def
    by (simp split: if_splits)
  from try_bind_Inr [OF b] obtain gc where
    b2: "try_bind (sanitizeString_default (member v (js ''prompt''))) (\<lambda>prompt.
           try_bind (build_systemInstruction v) (\<lambda>systemInstruction.
             Inr (JObj ([(js ''model'', model),
                         (js ''contents'', JArr (build_contents convs a prompt)),
                         (js ''generationConfig'', gc)] @
                        systemInstruction @ build_safetySettings P a @
                        build_tools a modelInfo)))) = Inr request" by blast
  from try_bind_Inr [OF b2] obtain prompt where
    p: "sanitizeString_default (member v (js ''prompt'')) = Inr prompt" and
    b3: "try_bind (build_systemInstruction v) (\<lambda>systemInstruction.
             Inr (JObj ([(js ''model'', model),
                         (js ''contents'', JArr (build_contents convs a prompt)),
                         (js ''generationConfig'', gc)] @
                        systemInstruction @ build_safetySettings P a @
                        build_tools a modelInfo))) = Inr request" by blast
  from try_bind_Inr [OF b3] obtain si where
    "request = JObj ([(js ''model'', model),
                         (js ''contents'', JArr (build_contents convs a prompt)),
                         (js ''generationConfig'', gc)] @
                        si @ build_safetySettings P a @ build_tools a modelInfo)" by auto
  then have "member request (js ''contents'') = JArr (build_contents convs a prompt)" by simp
  with p show ?thesis by blast
qed

lemma build_contents_history:
  "truthy (member args (js ''conversationId'')) \<Longrightarrow>
   build_contents convs args prompt =
     get_history convs (member args (js ''conversationId'')) @ [user_content prompt]"
  by (simp add: build_contents_def Let_def)

text \<open>
  For every successful \<open>generate_text\<close> call with a conversation id: the request holds
  the stored history followed by the new user message, and the history stored afterwards
  is the old history, then the contents of the request (the old history once more and
  the user message), then the reply.
\<close>

lemma generateText_conversation:
  assumes c: "truthy (member args (js ''conversationId''))"
    and s: "sent (generateText P R convs rid args) = Some request"
    and r: "R request = Inr result" and t: "get_prop result (js ''text'') = Some t"
  shows "\<exists>prompt.
           member request (js ''contents'') =
             JArr (get_history convs (member args (js ''conversationId'')) @
                   [user_content prompt]) \<and>
           store (generateText P R convs rid args) (member args (js ''conversationId'')) =
             Some (get_history convs (member args (js ''conversationId'')) @
                   get_history convs (member args (js ''conversationId'')) @
                   [user_content prompt, model_content (js_or t (JStr []))])"
proof -
  have b: "build_request P convs args = Inr request" using s by (rule sent_build_request)
  from request_from_contents [OF build_request_validated [OF b]] obtain prompt where
    m: "member request (js ''contents'') = JArr (build_contents convs args prompt)" by blast
  have "store (generateText P R convs rid args) (member args (js ''conversationId'')) =
          Some (get_history convs (member args (js ''conversationId'')) @
                entries_of_array (member request (js ''contents'')) @
                [model_content (js_or t (JStr []))])"
    using c by (simp add: generateText_def b r t Let_def)
  then show ?thesis
    using m c by (auto simp add: build_contents_history entries_of_array_def)
qed

end
